theory Spec2Isabelle
  imports Main "HOL-Library.Char_ord" "HOL-Library.List_Lexorder" "HOL-Library.Sublist"
begin

text \<open>
  A model of \<open>generate-pdf-docs.py\<close>: \<open>sanitize_anchor\<close> and
  \<open>create_pdf_from_repo\<close>, which walks a directory for \<open>*.md\<close> files, converts each
  one, assembles a single HTML document with a table of contents and hands it to a PDF
  renderer. The converter (\<open>markdown2\<close>) and the renderer (\<open>weasyprint\<close>) are parameters
  of the model; the file system is a tree; what is printed is a list of events.
\<close>

section \<open>Strings\<close>

text \<open>
  A Python \<open>str\<close> is modelled as a \<^typ>\<open>string\<close> whose characters are the code points
  U+0000 .. U+00FF; \<^term>\<open>of_char c :: nat\<close> is the code point. The character classes
  below are the ones CPython uses for a \<open>str\<close> pattern and for \<open>str.strip\<close> /
  \<open>str.lower\<close>, restricted to that range:
  \<^item> \<open>\s\<close> and \<open>strip()\<close>: \<open>str.isspace\<close>, that is TAB, LF, VT, FF, CR, U+001C .. U+001F,
    SPACE, U+0085 and U+00A0;
  \<^item> \<open>\w\<close>: \<open>str.isalnum\<close> or the underscore;
  \<^item> \<open>lower()\<close>: A .. Z and U+00C0 .. U+00DE without U+00D7 move up by 32.

  Texts with a code point above U+00FF are outside the model: what is proved below of file
  names, file contents and anchors is proved of texts in this range. Above it \<open>lower()\<close>
  can lengthen a text (U+0130 becomes two code points, the second a combining mark that
  \<open>\w\<close> does not match) and leaves some upper-case letters as they are (U+1D400).
\<close>

definition isspace :: "char \<Rightarrow> bool" where
  "isspace c = (let n = (of_char c :: nat) in
     (9 \<le> n \<and> n \<le> 13) \<or> (28 \<le> n \<and> n \<le> 32) \<or> n = 133 \<or> n = 160)"

definition isalnum :: "char \<Rightarrow> bool" where
  "isalnum c = (let n = (of_char c :: nat) in
     (48 \<le> n \<and> n \<le> 57) \<or> (65 \<le> n \<and> n \<le> 90) \<or> (97 \<le> n \<and> n \<le> 122) \<or>
     n = 170 \<or> n = 178 \<or> n = 179 \<or> n = 181 \<or> n = 185 \<or> n = 186 \<or>
     (188 \<le> n \<and> n \<le> 190) \<or>
     (192 \<le> n \<and> n \<le> 214) \<or> (216 \<le> n \<and> n \<le> 246) \<or> (248 \<le> n \<and> n \<le> 255))"

definition is_word :: "char \<Rightarrow> bool" where
  "is_word c = (isalnum c \<or> c = CHR ''_'')"

definition isupper :: "char \<Rightarrow> bool" where
  "isupper c = (let n = (of_char c :: nat) in
     (65 \<le> n \<and> n \<le> 90) \<or> (192 \<le> n \<and> n \<le> 214) \<or> (216 \<le> n \<and> n \<le> 222))"

definition lower_char :: "char \<Rightarrow> char" where
  "lower_char c = (if isupper c then char_of ((of_char c :: nat) + 32) else c)"

definition lower :: "string \<Rightarrow> string" where
  "lower s = map lower_char s"

text \<open>\<open>s.strip()\<close>: whitespace removed at both ends.\<close>

definition strip :: "string \<Rightarrow> string" where
  "strip s = rev (dropWhile isspace (rev (dropWhile isspace s)))"

text \<open>\<open>s.replace(' ', '-')\<close>: every U+0020 becomes a hyphen.\<close>

definition replace_space_hyphen :: "string \<Rightarrow> string" where
  "replace_space_hyphen s = map (\<lambda>c. if c = CHR '' '' then CHR ''-'' else c) s"

text \<open>\<open>re.sub(r'[^\w\s-]', '', text)\<close>: every character outside the class is deleted.\<close>

definition kept :: "char \<Rightarrow> bool" where
  "kept c = (is_word c \<or> isspace c \<or> c = CHR ''-'')"

definition re_sub_other :: "string \<Rightarrow> string" where
  "re_sub_other text = filter kept text"

text \<open>
  \<^verbatim>\<open>
  def sanitize_anchor(text):
      return re.sub(r'[^\w\s-]', '', text).strip().replace(' ', '-').lower()
  \<close>
\<close>

definition sanitize_anchor :: "string \<Rightarrow> string" where
  "sanitize_anchor text = lower (replace_space_hyphen (strip (re_sub_other text)))"

text \<open>\<open>str(n)\<close> for a non-negative \<open>int\<close>, and \<open>str(k)\<close> for any \<open>int\<close>: decimal digits.\<close>

definition digit_char :: "nat \<Rightarrow> char" where
  "digit_char d = char_of (48 + d)"

fun str_nat :: "nat \<Rightarrow> string" where
  "str_nat n = (if n < 10 then [digit_char n] else str_nat (n div 10) @ [digit_char (n mod 10)])"

declare str_nat.simps [simp del]

definition str_int :: "int \<Rightarrow> string" where
  "str_int k = (if k < 0 then CHR ''-'' # str_nat (nat (- k)) else str_nat (nat k))"

section \<open>Paths and the file system\<close>

text \<open>
  A \<open>pathlib.Path\<close> is the list of its parts; an absolute POSIX path has the part
  \<open>/\<close> first. Python compares two paths by comparing these lists of parts, each part as a
  string by code points: this is the order of \<^typ>\<open>string list\<close>.
\<close>

type_synonym path = "string list"

text \<open>
  The exceptions that can leave the function: \<open>ValueError\<close> from \<open>relative_to\<close>,
  \<open>OSError\<close> (with its message) from a \<open>stat\<close> call, \<open>UnicodeEncodeError\<close> from a
  \<open>print\<close>.
\<close>

datatype exn = ValueError | OSError string | UnicodeEncodeError

fun join :: "string list \<Rightarrow> string" where
  "join [] = []"
| "join [x] = x"
| "join (x # y # ys) = x @ ''/'' @ join (y # ys)"

definition is_absolute :: "path \<Rightarrow> bool" where
  "is_absolute p = (case p of [] \<Rightarrow> False | x # xs \<Rightarrow> x = ''/'')"

text \<open>\<open>str(p)\<close>.\<close>

definition path_str :: "path \<Rightarrow> string" where
  "path_str p = (if p = [] then ''.'' else if is_absolute p then ''/'' @ join (tl p) else join p)"

text \<open>\<open>p.absolute()\<close>, in the working directory \<open>cwd\<close>.\<close>

definition absolute :: "path \<Rightarrow> path \<Rightarrow> path" where
  "absolute cwd p = (if is_absolute p then p else cwd @ p)"

text \<open>\<open>p.relative_to(other)\<close> raises \<open>ValueError\<close> when \<open>p\<close> is not below \<open>other\<close>.\<close>

definition relative_to :: "path \<Rightarrow> path \<Rightarrow> exn + path" where
  "relative_to p other = (if prefix other p then Inr (drop (length other) p) else Inl ValueError)"

text \<open>
  The tree below the root. A regular file holds what opening and reading it meets: the
  message of the \<open>OSError\<close> raised, or the content of the file, cut into the units the
  UTF-8 decoder sees: \<open>Some c\<close> for a character it decodes, \<open>None\<close> for a byte that is
  not valid UTF-8. A directory lists its entries in the order the operating system returns
  them (a directory that cannot be listed yields nothing, like an empty one), and
  \<open>Special\<close> is any other kind of entry (a socket, a device, a dangling link). The tree is
  the state of the directory during the whole run: no entry changes between the walk, the
  \<open>is_file\<close> test and the read.
\<close>

datatype fsnode = File "string + char option list" | Dir "(string \<times> fsnode) list" | Special

text \<open>Decoding with \<open>errors='ignore'\<close>: the bytes that are not valid are dropped.\<close>

definition decode_ignore :: "char option list \<Rightarrow> string" where
  "decode_ignore units = [c. Some c \<leftarrow> units]"

text \<open>
  The entries below a directory in the order \<open>rglob\<close> meets them: the entries of the
  directory itself, then, for each of them that is a directory, what is below it.
\<close>

fun walk :: "fsnode \<Rightarrow> (path \<times> fsnode) list" where
  "walk (Dir es) =
     map (\<lambda>(name, n). ([name], n)) es @
     concat (map (\<lambda>(name, n). map (\<lambda>(p, m). (name # p, m)) (walk n)) es)"
| "walk (File r) = []"
| "walk Special = []"

fun lookup :: "fsnode \<Rightarrow> path \<Rightarrow> fsnode option" where
  "lookup n [] = Some n"
| "lookup (Dir es) (x # p) = (case map_of es x of None \<Rightarrow> None | Some m \<Rightarrow> lookup m p)"
| "lookup (File r) (x # p) = None"
| "lookup Special (x # p) = None"

text \<open>In a directory of a real file system no two entries have the same name.\<close>

fun wf_fs :: "fsnode \<Rightarrow> bool" where
  "wf_fs (Dir es) = (distinct (map fst es) \<and> list_all (\<lambda>(name, n). wf_fs n) es)"
| "wf_fs (File r) = True"
| "wf_fs Special = True"

text \<open>The entry a full path names, when the tree \<open>root\<close> is mounted at \<open>repo_path\<close>.\<close>

definition node_at :: "path \<Rightarrow> fsnode \<Rightarrow> path \<Rightarrow> fsnode option" where
  "node_at repo_path root p =
     (if prefix repo_path p then lookup root (drop (length repo_path) p) else None)"

text \<open>The answer of \<open>p.is_file()\<close> when \<open>stat\<close> answers (\<open>is_file_os\<close> below: when it may not).\<close>

definition is_file :: "path \<Rightarrow> fsnode \<Rightarrow> path \<Rightarrow> bool" where
  "is_file repo_path root p =
     (case node_at repo_path root p of Some (File r) \<Rightarrow> True | _ \<Rightarrow> False)"

text \<open>\<open>open(md_file, 'r', encoding='utf-8', errors='ignore').read()\<close>\<close>

definition read_file :: "path \<Rightarrow> fsnode \<Rightarrow> path \<Rightarrow> string + string" where
  "read_file repo_path root p =
     (case node_at repo_path root p of
        Some (File (Inl e)) \<Rightarrow> Inl e
      | Some (File (Inr units)) \<Rightarrow> Inr (decode_ignore units)
      | Some (Dir es) \<Rightarrow> Inl ''IsADirectoryError''
      | Some Special \<Rightarrow> Inl ''OSError''
      | None \<Rightarrow> Inl ''FileNotFoundError'')"

text \<open>The pattern \<open>*.md\<close> on a name: the name ends with \<open>.md\<close>.\<close>

definition fnmatch_md :: "string \<Rightarrow> bool" where
  "fnmatch_md name = suffix ''.md'' name"

text \<open>\<open>repo_path.rglob("*.md")\<close> and \<open>repo_path.rglob("*")\<close>: full paths, in walk order.\<close>

definition rglob_md :: "path \<Rightarrow> fsnode \<Rightarrow> path list" where
  "rglob_md repo_path root = [repo_path @ p. (p, n) \<leftarrow> walk root, fnmatch_md (last p)]"

definition rglob_all :: "path \<Rightarrow> fsnode \<Rightarrow> path list" where
  "rglob_all repo_path root = [repo_path @ p. (p, n) \<leftarrow> walk root]"

text \<open>
  \<^verbatim>\<open>
  md_files = []
  for md_file in repo_path.rglob("*.md"):
      if md_file.is_file():
          md_files.append(md_file)
  md_files = sorted(md_files)
  \<close>
\<close>

definition discover :: "path \<Rightarrow> fsnode \<Rightarrow> path list" where
  "discover repo_path root = sort (filter (is_file repo_path root) (rglob_md repo_path root))"

section \<open>The console and the composite document\<close>

text \<open>One constructor for each \<open>print\<close> of the program, with the values it interpolates.\<close>

datatype event =
    Searching path
  | DirectoryExists bool
  | NoDirectory path
  | Found nat
  | Listed path
  | MoreFiles nat
  | NoMarkdown path
  | FilesInDirectory
  | EmptyFile path
  | ErrorProcessing path string
  | GeneratingPDF string
  | Generated string nat
  | GenerationFailed
  | ErrorGenerating string

text \<open>The opening f-string of \<open>html_content\<close>.\<close>

definition html_start :: "string \<Rightarrow> path \<Rightarrow> nat \<Rightarrow> string" where
  \<open>html_start output_name abs_path n_files =
     ''\<newline>    <!DOCTYPE html>\<newline>'' @
     ''    <html>\<newline>'' @
     ''    <head>\<newline>'' @
     ''        <meta charset="UTF-8">\<newline>'' @
     ''        <title>'' @ output_name @ '' Documentation</title>\<newline>'' @
     ''    </head>\<newline>'' @
     ''    <body>\<newline>'' @
     ''        <h1>'' @ output_name @ '' Documentation</h1>\<newline>'' @
     ''        <p>Generated from: <code>'' @ path_str abs_path @ ''</code></p>\<newline>'' @
     ''        <p>Total files: '' @ str_nat n_files @ ''</p>\<newline>'' @
     ''\<newline>'' @
     ''        <div class="toc">\<newline>'' @
     ''            <h2>Table of Contents</h2>\<newline>'' @
     ''            <ul>\<newline>'' @
     ''    ''\<close>

text \<open>\<open>anchor = f"section-{i}-{sanitize_anchor(str(relative_path))}"\<close>\<close>

definition anchor_of :: "nat \<Rightarrow> path \<Rightarrow> string" where
  "anchor_of i relative_path =
     ''section-'' @ str_nat i @ ''-'' @ sanitize_anchor (path_str relative_path)"

text \<open>
  \<^verbatim>\<open>
  indent_level = len(relative_path.parts) - 1
  indent_style = f"margin-left: {indent_level * 20}px;"
  html_content += f'<li style="{indent_style}"><a href="#{anchor}">{relative_path}</a></li>\n'
  \<close>
\<close>

definition indent_style :: "path \<Rightarrow> string" where
  "indent_style relative_path =
     ''margin-left: '' @ str_int ((int (length relative_path) - 1) * 20) @ ''px;''"

definition toc_item :: "string \<Rightarrow> path \<Rightarrow> string" where
  \<open>toc_item anchor relative_path =
     ''<li style="'' @ indent_style relative_path @ ''"><a href="#'' @ anchor @ ''">'' @
     path_str relative_path @ ''</a></li>\<newline>''\<close>

definition toc_close :: string where
  \<open>toc_close = ''\<newline>            </ul>\<newline>        </div>\<newline>    ''\<close>

definition file_section :: "string \<times> path \<times> string \<Rightarrow> string" where
  \<open>file_section sec = (case sec of (anchor, relative_path, html_section) \<Rightarrow>
     ''\<newline>        <div class="file-section" id="'' @ anchor @ ''">\<newline>'' @
     ''            <div class="file-path">'' @ path_str relative_path @ ''</div>\<newline>'' @
     ''            '' @ html_section @ ''\<newline>'' @
     ''        </div>\<newline>'' @
     ''        '')\<close>

definition html_end :: string where
  "html_end = ''</body></html>''"

section \<open>The run\<close>

text \<open>The variables the loop over \<open>enumerate(md_files)\<close> updates, and the lines it prints.\<close>

record loop_state =
  html_content :: string
  content_sections :: "(string \<times> path \<times> string) list"
  printed :: "event list"

text \<open>
  The \<open>try\<close> block of one iteration: \<open>Inr\<close> the markup that reaches
  \<open>content_sections.append\<close>, \<open>Inl\<close> the line printed when the file is skipped (by
  \<open>continue\<close>, or by the \<open>except Exception\<close> clause). \<open>markdown\<close> is
  \<open>markdown2.markdown\<close> with the fixed list of extras: \<open>Inr\<close> the converted markup,
  \<open>Inl\<close> the message of the exception it raises.
\<close>

definition try_convert ::
  "(string \<Rightarrow> string + string) \<Rightarrow> path \<Rightarrow> fsnode \<Rightarrow> path \<Rightarrow> path \<Rightarrow> event + string"
where
  "try_convert markdown repo_path root md_file relative_path =
     (case read_file repo_path root md_file of
        Inl e \<Rightarrow> Inl (ErrorProcessing md_file e)
      | Inr md_content \<Rightarrow>
          if strip md_content = [] then Inl (EmptyFile relative_path)
          else (case markdown md_content of
                  Inl e \<Rightarrow> Inl (ErrorProcessing md_file e)
                | Inr html_section \<Rightarrow> Inr html_section))"

text \<open>
  One iteration of the loop. The \<open>relative_to\<close> call stands before the \<open>try\<close>, so its
  exception would leave the loop; the navigation item is appended before the \<open>try\<close> too.
\<close>

definition process_file ::
  "(string \<Rightarrow> string + string) \<Rightarrow> path \<Rightarrow> fsnode \<Rightarrow> nat \<Rightarrow> path \<Rightarrow> loop_state \<Rightarrow> exn + loop_state"
where
  "process_file markdown repo_path root i md_file st =
     (case relative_to md_file repo_path of
        Inl e \<Rightarrow> Inl e
      | Inr relative_path \<Rightarrow>
          let anchor = anchor_of i relative_path;
              st1 = st\<lparr>html_content := html_content st @ toc_item anchor relative_path\<rparr>
          in (case try_convert markdown repo_path root md_file relative_path of
                Inl line \<Rightarrow> Inr (st1\<lparr>printed := printed st1 @ [line]\<rparr>)
              | Inr html_section \<Rightarrow>
                  Inr (st1\<lparr>content_sections :=
                         content_sections st1 @ [(anchor, relative_path, html_section)]\<rparr>)))"

fun process_files ::
  "(string \<Rightarrow> string + string) \<Rightarrow> path \<Rightarrow> fsnode \<Rightarrow> (nat \<times> path) list \<Rightarrow> loop_state \<Rightarrow> exn + loop_state"
where
  "process_files markdown repo_path root [] st = Inr st"
| "process_files markdown repo_path root ((i, md_file) # rest) st =
     (case process_file markdown repo_path root i md_file st of
        Inl e \<Rightarrow> Inl e
      | Inr st' \<Rightarrow> process_files markdown repo_path root rest st')"

text \<open>Printing \<open>f.relative_to(repo_path)\<close> for each path \<open>f\<close> of a list.\<close>

fun print_relative :: "path \<Rightarrow> path list \<Rightarrow> exn + event list" where
  "print_relative repo_path [] = Inr []"
| "print_relative repo_path (f # fs) =
     (case relative_to f repo_path of
        Inl e \<Rightarrow> Inl e
      | Inr rel \<Rightarrow>
          (case print_relative repo_path fs of
             Inl e \<Rightarrow> Inl e
           | Inr evs \<Rightarrow> Inr (Listed rel # evs)))"

text \<open>
  What a run leaves behind: the console, the composite document when the assembly was
  reached, and the files of the working directory (name to size).
\<close>

record run =
  console :: "event list"
  document :: "string option"
  files :: "string \<rightharpoonup> nat"

text \<open>
  The rendering step. \<open>write_pdf\<close> is \<open>HTML(string=html_content).write_pdf(name,
  stylesheets=[CSS(string=css_content)])\<close> with the constant style sheet of the program: it
  changes the files of the working directory and returns, or raises (\<open>Some\<close> the message).
\<close>

definition generate_pdf ::
  "(string \<Rightarrow> string \<Rightarrow> (string \<rightharpoonup> nat) \<Rightarrow> string option \<times> (string \<rightharpoonup> nat)) \<Rightarrow>
   string \<Rightarrow> string \<Rightarrow> (string \<rightharpoonup> nat) \<Rightarrow> event list \<times> (string \<rightharpoonup> nat)"
where
  "generate_pdf write_pdf output_name html store =
     (let pdf = output_name @ ''.pdf'' in
      case write_pdf html pdf store of
        (Some e, store') \<Rightarrow> ([GeneratingPDF pdf, ErrorGenerating e], store')
      | (None, store') \<Rightarrow>
          (case store' pdf of
             Some size_bytes \<Rightarrow> ([GeneratingPDF pdf, Generated pdf size_bytes], store')
           | None \<Rightarrow> ([GeneratingPDF pdf, GenerationFailed], store')))"

text \<open>
  \<open>create_pdf_from_repo(repo_path, output_name)\<close>. \<open>root\<close> is what \<open>repo_path\<close> names
  (\<open>None\<close>: nothing), \<open>cwd\<close> the working directory and \<open>store\<close> its files. \<open>Inr\<close> is a
  return, \<open>Inl\<close> an exception that leaves the function. This is the run in which every
  \<open>stat\<close> call answers and every \<open>print\<close> succeeds; \<open>create_pdf_from_repo_os\<close> below
  is the run in which they may raise, and agrees with this one when none does.
\<close>

definition create_pdf_from_repo ::
  "(string \<Rightarrow> string + string) \<Rightarrow>
   (string \<Rightarrow> string \<Rightarrow> (string \<rightharpoonup> nat) \<Rightarrow> string option \<times> (string \<rightharpoonup> nat)) \<Rightarrow>
   path \<Rightarrow> (string \<rightharpoonup> nat) \<Rightarrow> fsnode option \<Rightarrow> path \<Rightarrow> string \<Rightarrow> exn + run"
where
  "create_pdf_from_repo markdown write_pdf cwd store root_opt repo_path output_name =
     (let log0 = [Searching (absolute cwd repo_path), DirectoryExists (root_opt \<noteq> None)] in
      case root_opt of
        None \<Rightarrow>
          Inr \<lparr>console = log0 @ [NoDirectory repo_path], document = None, files = store\<rparr>
      | Some root \<Rightarrow>
          let md_files = discover repo_path root in
          (case print_relative repo_path (take 10 md_files) of
             Inl e \<Rightarrow> Inl e
           | Inr first10 \<Rightarrow>
               let log1 = log0 @ [Found (length md_files)] @ first10 @
                          (if length md_files > 10 then [MoreFiles (length md_files - 10)] else [])
               in
               if md_files = [] then
                 (case print_relative repo_path
                         (filter (is_file repo_path root) (rglob_all repo_path root)) of
                    Inl e \<Rightarrow> Inl e
                  | Inr listing \<Rightarrow>
                      Inr \<lparr>console = log1 @ [NoMarkdown repo_path, FilesInDirectory] @ listing,
                           document = None, files = store\<rparr>)
               else
                 (case process_files markdown repo_path root (enumerate 0 md_files)
                         \<lparr>html_content =
                            html_start output_name (absolute cwd repo_path) (length md_files),
                          content_sections = [], printed = log1\<rparr> of
                    Inl e \<Rightarrow> Inl e
                  | Inr st \<Rightarrow>
                      let html = html_content st @ toc_close @
                                 concat (map file_section (content_sections st)) @ html_end;
                          (evs, store') = generate_pdf write_pdf output_name html store
                      in Inr \<lparr>console = printed st @ evs, document = Some html,
                              files = store'\<rparr>)))"

section \<open>The run when a system call or a print raises\<close>

text \<open>
  \<open>create_pdf_from_repo\<close> above is the run in which no \<open>stat\<close> call and no \<open>print\<close> raises.
  The functions of this section follow the same lines of the program and add the three
  ways in which such a call raises, outside any \<open>try\<close> or inside one:
  \<^item> \<open>root_error\<close>: \<open>os.stat(repo_path)\<close> fails with an error other than \<open>ENOENT\<close>,
    \<open>ENOTDIR\<close>, \<open>EBADF\<close> or \<open>ELOOP\<close> (a name that is too long, a parent directory that
    cannot be searched); \<open>repo_path.exists()\<close> raises it again, whether or not the root is
    there;
  \<^item> \<open>stat_error p\<close>: the same for the entry with the full path \<open>p\<close> (an entry of a
    directory that can be listed but not searched); \<open>p.is_file()\<close> raises it again;
  \<^item> \<open>unencodable n\<close>: the name \<open>n\<close> has bytes that the file-system encoding cannot
    decode. Python carries them as lone surrogates, which the characters of the model do
    not have, and \<open>print\<close> raises \<open>UnicodeEncodeError\<close> on a text that holds one.

  What stays fixed: the console is one that can write every other character (the lines of
  the program hold characters outside ASCII themselves), and \<open>rglob\<close> can list every
  directory of the tree. An exception that leaves the function is the value of the run;
  the lines printed before it are not kept.
\<close>

record faults =
  root_error :: "string option"
  stat_error :: "path \<Rightarrow> string option"
  unencodable :: "string \<Rightarrow> bool"

definition no_faults :: faults where
  "no_faults = \<lparr>root_error = None, stat_error = (\<lambda>p. None), unencodable = (\<lambda>n. False)\<rparr>"

text \<open>A path that \<open>print\<close> can write: none of its names is unencodable.\<close>

definition encodable :: "faults \<Rightarrow> path \<Rightarrow> bool" where
  "encodable fl p = list_all (\<lambda>n. \<not> unencodable fl n) p"

text \<open>\<open>print(...)\<close> of a line that interpolates the path \<open>p\<close>.\<close>

definition print_path :: "faults \<Rightarrow> path \<Rightarrow> event \<Rightarrow> exn + event list" where
  "print_path fl p line = (if encodable fl p then Inr [line] else Inl UnicodeEncodeError)"

text \<open>\<open>repo_path.exists()\<close>\<close>

definition exists_os :: "faults \<Rightarrow> fsnode option \<Rightarrow> exn + bool" where
  "exists_os fl root_opt =
     (case root_error fl of Some e \<Rightarrow> Inl (OSError e) | None \<Rightarrow> Inr (root_opt \<noteq> None))"

text \<open>\<open>p.is_file()\<close>\<close>

definition is_file_os :: "faults \<Rightarrow> path \<Rightarrow> fsnode \<Rightarrow> path \<Rightarrow> exn + bool" where
  "is_file_os fl repo_path root p =
     (case stat_error fl p of
        Some e \<Rightarrow> Inl (OSError e)
      | None \<Rightarrow> Inr (is_file repo_path root p))"

text \<open>
  \<^verbatim>\<open>
  md_files = []
  for md_file in repo_path.rglob("*.md"):
      if md_file.is_file():
          md_files.append(md_file)
  md_files = sorted(md_files)
  \<close>
\<close>

fun collect_files :: "faults \<Rightarrow> path \<Rightarrow> fsnode \<Rightarrow> path list \<Rightarrow> exn + path list" where
  "collect_files fl repo_path root [] = Inr []"
| "collect_files fl repo_path root (md_file # rest) =
     (case is_file_os fl repo_path root md_file of
        Inl e \<Rightarrow> Inl e
      | Inr b \<Rightarrow>
          (case collect_files fl repo_path root rest of
             Inl e \<Rightarrow> Inl e
           | Inr md_files \<Rightarrow> Inr (if b then md_file # md_files else md_files)))"

definition discover_os :: "faults \<Rightarrow> path \<Rightarrow> fsnode \<Rightarrow> exn + path list" where
  "discover_os fl repo_path root =
     (case collect_files fl repo_path root (rglob_md repo_path root) of
        Inl e \<Rightarrow> Inl e
      | Inr md_files \<Rightarrow> Inr (sort md_files))"

text \<open>
  \<^verbatim>\<open>
  for f in md_files[:10]:
      print(f"  - {f.relative_to(repo_path)}")
  \<close>
\<close>

fun print_relative_os :: "faults \<Rightarrow> path \<Rightarrow> path list \<Rightarrow> exn + event list" where
  "print_relative_os fl repo_path [] = Inr []"
| "print_relative_os fl repo_path (f # fs) =
     (case relative_to f repo_path of
        Inl e \<Rightarrow> Inl e
      | Inr rel \<Rightarrow>
          (case print_path fl rel (Listed rel) of
             Inl e \<Rightarrow> Inl e
           | Inr line \<Rightarrow>
               (case print_relative_os fl repo_path fs of
                  Inl e \<Rightarrow> Inl e
                | Inr evs \<Rightarrow> Inr (line @ evs))))"

text \<open>
  \<^verbatim>\<open>
  for item in repo_path.rglob("*"):
      if item.is_file():
          print(f"  - {item.relative_to(repo_path)}")
  \<close>
\<close>

fun list_files_os :: "faults \<Rightarrow> path \<Rightarrow> fsnode \<Rightarrow> path list \<Rightarrow> exn + event list" where
  "list_files_os fl repo_path root [] = Inr []"
| "list_files_os fl repo_path root (item # items) =
     (case is_file_os fl repo_path root item of
        Inl e \<Rightarrow> Inl e
      | Inr b \<Rightarrow>
          if b then
            (case relative_to item repo_path of
               Inl e \<Rightarrow> Inl e
             | Inr rel \<Rightarrow>
                 (case print_path fl rel (Listed rel) of
                    Inl e \<Rightarrow> Inl e
                  | Inr line \<Rightarrow>
                      (case list_files_os fl repo_path root items of
                         Inl e \<Rightarrow> Inl e
                       | Inr evs \<Rightarrow> Inr (line @ evs))))
          else list_files_os fl repo_path root items)"

text \<open>
  The \<open>except Exception as e\<close> clause of the loop: its \<open>print\<close> interpolates \<open>md_file\<close>,
  and an exception raised there is raised outside the \<open>try\<close>, so it leaves the loop.
\<close>

definition except_clause :: "faults \<Rightarrow> path \<Rightarrow> string \<Rightarrow> loop_state \<Rightarrow> exn + loop_state" where
  "except_clause fl md_file e st =
     (if encodable fl md_file
      then Inr (st\<lparr>printed := printed st @ [ErrorProcessing md_file e]\<rparr>)
      else Inl UnicodeEncodeError)"

text \<open>
  One iteration of the loop. The \<open>print\<close> of the empty-file warning stands inside the
  \<open>try\<close>: when it raises, the \<open>except\<close> clause takes over with the message of the
  \<open>UnicodeEncodeError\<close>.
\<close>

definition process_file_os ::
  "faults \<Rightarrow> (string \<Rightarrow> string + string) \<Rightarrow> path \<Rightarrow> fsnode \<Rightarrow> nat \<Rightarrow> path \<Rightarrow> loop_state \<Rightarrow>
   exn + loop_state"
where
  "process_file_os fl markdown repo_path root i md_file st =
     (case relative_to md_file repo_path of
        Inl e \<Rightarrow> Inl e
      | Inr relative_path \<Rightarrow>
          let anchor = anchor_of i relative_path;
              st1 = st\<lparr>html_content := html_content st @ toc_item anchor relative_path\<rparr>
          in (case read_file repo_path root md_file of
                Inl e \<Rightarrow> except_clause fl md_file e st1
              | Inr md_content \<Rightarrow>
                  if strip md_content = [] then
                    (if encodable fl relative_path
                     then Inr (st1\<lparr>printed := printed st1 @ [EmptyFile relative_path]\<rparr>)
                     else except_clause fl md_file ''surrogates not allowed'' st1)
                  else
                    (case markdown md_content of
                       Inl e \<Rightarrow> except_clause fl md_file e st1
                     | Inr html_section \<Rightarrow>
                         Inr (st1\<lparr>content_sections :=
                                content_sections st1 @ [(anchor, relative_path, html_section)]\<rparr>))))"

fun process_files_os ::
  "faults \<Rightarrow> (string \<Rightarrow> string + string) \<Rightarrow> path \<Rightarrow> fsnode \<Rightarrow> (nat \<times> path) list \<Rightarrow>
   loop_state \<Rightarrow> exn + loop_state"
where
  "process_files_os fl markdown repo_path root [] st = Inr st"
| "process_files_os fl markdown repo_path root ((i, md_file) # rest) st =
     (case process_file_os fl markdown repo_path root i md_file st of
        Inl e \<Rightarrow> Inl e
      | Inr st' \<Rightarrow> process_files_os fl markdown repo_path root rest st')"

text \<open>
  The rendering step: the two \<open>print\<close> calls that interpolate a name stand inside the
  \<open>try\<close>, so an exception of theirs ends in the error line of the \<open>except\<close> clause.
\<close>

definition generate_pdf_os ::
  "faults \<Rightarrow>
   (string \<Rightarrow> string \<Rightarrow> (string \<rightharpoonup> nat) \<Rightarrow> string option \<times> (string \<rightharpoonup> nat)) \<Rightarrow>
   path \<Rightarrow> string \<Rightarrow> string \<Rightarrow> (string \<rightharpoonup> nat) \<Rightarrow> event list \<times> (string \<rightharpoonup> nat)"
where
  "generate_pdf_os fl write_pdf cwd output_name html store =
     (let pdf = output_name @ ''.pdf'' in
      if unencodable fl pdf then ([ErrorGenerating ''surrogates not allowed''], store)
      else
        (case write_pdf html pdf store of
           (Some e, store') \<Rightarrow> ([GeneratingPDF pdf, ErrorGenerating e], store')
         | (None, store') \<Rightarrow>
             (case store' pdf of
                Some size_bytes \<Rightarrow>
                  if encodable fl cwd
                  then ([GeneratingPDF pdf, Generated pdf size_bytes], store')
                  else ([GeneratingPDF pdf, ErrorGenerating ''surrogates not allowed''], store')
              | None \<Rightarrow> ([GeneratingPDF pdf, GenerationFailed], store'))))"

text \<open>
  \<open>create_pdf_from_repo(repo_path, output_name)\<close> with these exceptions. The second call
  of \<open>repo_path.exists()\<close> answers as the first did.
\<close>

definition create_pdf_from_repo_os ::
  "faults \<Rightarrow> (string \<Rightarrow> string + string) \<Rightarrow>
   (string \<Rightarrow> string \<Rightarrow> (string \<rightharpoonup> nat) \<Rightarrow> string option \<times> (string \<rightharpoonup> nat)) \<Rightarrow>
   path \<Rightarrow> (string \<rightharpoonup> nat) \<Rightarrow> fsnode option \<Rightarrow> path \<Rightarrow> string \<Rightarrow> exn + run"
where
  "create_pdf_from_repo_os fl markdown write_pdf cwd store root_opt repo_path output_name =
     (if \<not> encodable fl (absolute cwd repo_path) then Inl UnicodeEncodeError
      else
        (case exists_os fl root_opt of
           Inl e \<Rightarrow> Inl e
         | Inr ex \<Rightarrow>
             let log0 = [Searching (absolute cwd repo_path), DirectoryExists ex] in
             (case root_opt of
                None \<Rightarrow>
                  if encodable fl repo_path
                  then Inr \<lparr>console = log0 @ [NoDirectory repo_path], document = None,
                            files = store\<rparr>
                  else Inl UnicodeEncodeError
              | Some root \<Rightarrow>
                  (case discover_os fl repo_path root of
                     Inl e \<Rightarrow> Inl e
                   | Inr md_files \<Rightarrow>
                       (case print_relative_os fl repo_path (take 10 md_files) of
                          Inl e \<Rightarrow> Inl e
                        | Inr first10 \<Rightarrow>
                            let log1 = log0 @ [Found (length md_files)] @ first10 @
                                  (if length md_files > 10
                                   then [MoreFiles (length md_files - 10)] else [])
                            in
                            if md_files = [] then
                              (if encodable fl repo_path then
                                 (case list_files_os fl repo_path root
                                         (rglob_all repo_path root) of
                                    Inl e \<Rightarrow> Inl e
                                  | Inr listing \<Rightarrow>
                                      Inr \<lparr>console = log1 @
                                             [NoMarkdown repo_path, FilesInDirectory] @ listing,
                                           document = None, files = store\<rparr>)
                               else Inl UnicodeEncodeError)
                            else
                              (case process_files_os fl markdown repo_path root
                                      (enumerate 0 md_files)
                                      \<lparr>html_content =
                                         html_start output_name (absolute cwd repo_path)
                                           (length md_files),
                                       content_sections = [], printed = log1\<rparr> of
                                 Inl e \<Rightarrow> Inl e
                               | Inr st \<Rightarrow>
                                   let html = html_content st @ toc_close @
                                         concat (map file_section (content_sections st)) @
                                         html_end;
                                       (evs, store') =
                                         generate_pdf_os fl write_pdf cwd output_name html store
                                   in Inr \<lparr>console = printed st @ evs, document = Some html,
                                           files = store'\<rparr>))))))"

section \<open>What a run contributes, file by file\<close>

text \<open>
  The values the theorems below speak about. \<open>relative\<close> is the value of
  \<open>md_file.relative_to(repo_path)\<close> when it does not raise; \<open>nav_items\<close> are the
  navigation items the loop appends to \<open>html_content\<close>, one for every pair of
  \<open>enumerate(md_files)\<close>; \<open>sections_of\<close> are the triples it appends to
  \<open>content_sections\<close> and \<open>skip_lines\<close> the lines it prints; \<open>converted\<close> says that
  the \<open>try\<close> block of a file reached \<open>content_sections.append\<close>.
\<close>

definition relative :: "path \<Rightarrow> path \<Rightarrow> path" where
  "relative repo_path f = drop (length repo_path) f"

definition nav_item :: "path \<Rightarrow> nat \<times> path \<Rightarrow> string" where
  "nav_item repo_path x =
     toc_item (anchor_of (fst x) (relative repo_path (snd x))) (relative repo_path (snd x))"

definition nav_items :: "path \<Rightarrow> (nat \<times> path) list \<Rightarrow> string list" where
  "nav_items repo_path ifs = map (nav_item repo_path) ifs"

definition converted :: "(string \<Rightarrow> string + string) \<Rightarrow> path \<Rightarrow> fsnode \<Rightarrow> path \<Rightarrow> bool" where
  "converted markdown repo_path root f =
     (case try_convert markdown repo_path root f (relative repo_path f) of
        Inl line \<Rightarrow> False | Inr html_section \<Rightarrow> True)"

definition section_of ::
  "(string \<Rightarrow> string + string) \<Rightarrow> path \<Rightarrow> fsnode \<Rightarrow> nat \<times> path \<Rightarrow> (string \<times> path \<times> string) list"
where
  "section_of markdown repo_path root x =
     (case try_convert markdown repo_path root (snd x) (relative repo_path (snd x)) of
        Inl line \<Rightarrow> []
      | Inr html_section \<Rightarrow>
          [(anchor_of (fst x) (relative repo_path (snd x)), relative repo_path (snd x),
            html_section)])"

definition sections_of ::
  "(string \<Rightarrow> string + string) \<Rightarrow> path \<Rightarrow> fsnode \<Rightarrow> (nat \<times> path) list \<Rightarrow>
   (string \<times> path \<times> string) list"
where
  "sections_of markdown repo_path root ifs = concat (map (section_of markdown repo_path root) ifs)"

definition skip_line ::
  "(string \<Rightarrow> string + string) \<Rightarrow> path \<Rightarrow> fsnode \<Rightarrow> nat \<times> path \<Rightarrow> event list"
where
  "skip_line markdown repo_path root x =
     (case try_convert markdown repo_path root (snd x) (relative repo_path (snd x)) of
        Inl line \<Rightarrow> [line] | Inr html_section \<Rightarrow> [])"

definition skip_lines ::
  "(string \<Rightarrow> string + string) \<Rightarrow> path \<Rightarrow> fsnode \<Rightarrow> (nat \<times> path) list \<Rightarrow> event list"
where
  "skip_lines markdown repo_path root ifs = concat (map (skip_line markdown repo_path root) ifs)"

text \<open>The lines printed between the existence check and the loop.\<close>

definition found_lines :: "path \<Rightarrow> path list \<Rightarrow> event list" where
  "found_lines repo_path md_files =
     [Found (length md_files)] @ map (\<lambda>f. Listed (relative repo_path f)) (take 10 md_files) @
     (if length md_files > 10 then [MoreFiles (length md_files - 10)] else [])"

text \<open>The composite document of a run that reaches the assembly.\<close>

definition composite ::
  "(string \<Rightarrow> string + string) \<Rightarrow> path \<Rightarrow> fsnode \<Rightarrow> path \<Rightarrow> string \<Rightarrow> string"
where
  "composite markdown cwd root repo_path output_name =
     html_start output_name (absolute cwd repo_path) (length (discover repo_path root)) @
     concat (nav_items repo_path (enumerate 0 (discover repo_path root))) @
     toc_close @
     concat (map file_section
       (sections_of markdown repo_path root (enumerate 0 (discover repo_path root)))) @
     html_end"

text \<open>The regular files that match \<open>*.md\<close>, each with what reading it gives.\<close>

definition md_entries :: "fsnode \<Rightarrow> (path \<times> (string + char option list)) list" where
  "md_entries root = [(p, r). (p, File r) \<leftarrow> walk root, fnmatch_md (last p)]"

text \<open>Decimal numerals: \<open>int(str(n)) == n\<close>, and no digit is a hyphen.\<close>

definition digits_value :: "string \<Rightarrow> nat" where
  "digits_value s = foldl (\<lambda>a c. 10 * a + ((of_char c :: nat) - 48)) 0 s"

section \<open>Concrete runs\<close>

text \<open>
  A converter and two renderers to run the program on concrete trees: the converter wraps
  the text in a paragraph and raises on the text \<open>!\<close>; the first renderer writes the
  artifact, the second raises.
\<close>

definition example_markdown :: "string \<Rightarrow> string + string" where
  "example_markdown s = (if s = ''!'' then Inl ''conversion failed'' else Inr (''<p>'' @ s @ ''</p>''))"

definition example_write_pdf ::
  "string \<Rightarrow> string \<Rightarrow> (string \<rightharpoonup> nat) \<Rightarrow> string option \<times> (string \<rightharpoonup> nat)"
where
  "example_write_pdf html name store = (None, store(name \<mapsto> length html))"

definition failing_write_pdf ::
  "string \<Rightarrow> string \<Rightarrow> (string \<rightharpoonup> nat) \<Rightarrow> string option \<times> (string \<rightharpoonup> nat)"
where
  "failing_write_pdf html name store = (Some ''render error'', store)"

text \<open>The tree of the scenario: \<open>a.md\<close>, an empty \<open>sub/b.md\<close>, and \<open>c.md\<close>.\<close>

definition example_root :: fsnode where
  "example_root =
     Dir [(''sub'', Dir [(''b.md'', File (Inr (map Some '''')))]),
          (''c.md'', File (Inr (map Some ''## X''))),
          (''a.md'', File (Inr (map Some ''# Title\<newline>\<newline>hello'')))]"

text \<open>The same entries, listed by the operating system in another order.\<close>

definition example_root_reordered :: fsnode where
  "example_root_reordered =
     Dir [(''a.md'', File (Inr (map Some ''# Title\<newline>\<newline>hello''))),
          (''c.md'', File (Inr (map Some ''## X''))),
          (''sub'', Dir [(''b.md'', File (Inr (map Some '''')))])]"

text \<open>
  A tree with a file that cannot be opened, a file the converter fails on, a blank file, a
  directory and a socket whose names match the pattern, and a file whose name does not.
\<close>

definition example_root_mixed :: fsnode where
  "example_root_mixed =
     Dir [(''notes.txt'', File (Inr (map Some ''plain''))),
          (''old.md'', Dir [(''z.md'', File (Inr (map Some ''last'')))]),
          (''locked.md'', File (Inl ''Permission denied'')),
          (''pipe.md'', Special),
          (''bad.md'', File (Inr (map Some ''!''))),
          (''empty.md'', File (Inr (map Some ''  \<newline>''))),
          (''a b.md'', File (Inr (map Some ''first''))),
          (''a-b.md'', File (Inr (map Some ''second'')))]"

text \<open>A tree without any file that matches, with files at two depths.\<close>

definition example_root_plain :: fsnode where
  "example_root_plain =
     Dir [(''b'', Dir [(''y.txt'', File (Inr (map Some ''deep'')))]),
          (''notes.txt'', File (Inr (map Some ''plain''))),
          (''img.md'', Dir []),
          (''m.txt'', File (Inr (map Some ''more'')))]"


text \<open>
  A tree with a blank file whose name cannot be printed (\<open>caf.md\<close> stands for a name
  with a byte before the dot that is not valid UTF-8), and a file with such a byte in its
  content, between \<open>h\<close> and \<open>i\<close>.
\<close>

definition example_root_encoding :: fsnode where
  "example_root_encoding =
     Dir [(''caf.md'', File (Inr [])),
          (''latin1.md'', File (Inr [Some CHR ''h'', None, Some CHR ''i''])),
          (''blank.md'', File (Inr (map Some ''  \<newline>''))),
          (''locked.md'', File (Inl ''Permission denied'')),
          (''bad.md'', File (Inr (map Some ''!'')))]"

definition example_bad_name :: faults where
  "example_bad_name = no_faults\<lparr>unencodable := (\<lambda>n. n = ''caf.md'')\<rparr>"

text \<open>A working directory whose name cannot be printed.\<close>

definition example_bad_cwd :: faults where
  "example_bad_cwd = no_faults\<lparr>unencodable := (\<lambda>n. n = ''w'')\<rparr>"

text \<open>A root whose name is too long to exist, and an entry that cannot be examined.\<close>

definition example_long_name :: faults where
  "example_long_name = no_faults\<lparr>root_error := Some ''File name too long''\<rparr>"


section \<open>Characters and strings\<close>

lemma of_char_digit_char: "d < 10 \<Longrightarrow> (of_char (digit_char d) :: nat) = 48 + d"
  by (simp add: digit_char_def)

lemma digits_value_str_nat: "digits_value (str_nat n) = n"
proof (induction n rule: str_nat.induct)
  case (1 n)
  show ?case
  proof (cases "n < 10")
    case True
    then show ?thesis
      by (subst str_nat.simps) (simp add: digits_value_def of_char_digit_char)
  next
    case False
    have "digits_value (str_nat n) = 10 * digits_value (str_nat (n div 10)) + n mod 10"
      using False by (subst str_nat.simps) (simp add: digits_value_def of_char_digit_char)
    with 1 False show ?thesis by simp
  qed
qed

lemma str_nat_inj: "str_nat i = str_nat j \<Longrightarrow> i = j"
  by (metis digits_value_str_nat)

lemma str_nat_no_hyphen: "CHR ''-'' \<notin> set (str_nat n)"
proof (induction n rule: str_nat.induct)
  case (1 n)
  have d: "\<And>d. d < 10 \<Longrightarrow> digit_char d \<noteq> CHR ''-''"
    using of_char_digit_char by fastforce
  show ?case
  proof (cases "n < 10")
    case True
    then show ?thesis using d [of n] by (subst str_nat.simps) auto
  next
    case False
    then show ?thesis using 1 d [of "n mod 10"] by (subst str_nat.simps) auto
  qed
qed

lemma takeWhile_stop: "x \<notin> set xs \<Longrightarrow> takeWhile (\<lambda>c. c \<noteq> x) (xs @ x # ys) = xs"
  by (induction xs) auto

lemma anchor_of_index: "anchor_of i p = anchor_of j q \<Longrightarrow> i = j"
proof -
  assume "anchor_of i p = anchor_of j q"
  then have "str_nat i @ CHR ''-'' # sanitize_anchor (path_str p) =
             str_nat j @ CHR ''-'' # sanitize_anchor (path_str q)"
    by (simp add: anchor_of_def)
  then have "takeWhile (\<lambda>c. c \<noteq> CHR ''-'') (str_nat i @ CHR ''-'' # sanitize_anchor (path_str p)) =
             takeWhile (\<lambda>c. c \<noteq> CHR ''-'') (str_nat j @ CHR ''-'' # sanitize_anchor (path_str q))"
    by simp
  then have "str_nat i = str_nat j"
    by (simp only: takeWhile_stop [OF str_nat_no_hyphen])
  then show "i = j" by (rule str_nat_inj)
qed

section \<open>Walking the tree and resolving a path\<close>

lemma in_walk_Dir:
  "(p, m) \<in> set (walk (Dir es)) \<longleftrightarrow>
     (\<exists>name n. (name, n) \<in> set es \<and>
        (p = [name] \<and> m = n \<or> (\<exists>q. p = name # q \<and> (q, m) \<in> set (walk n))))"
  by force

lemma walk_nonempty: "(p, n) \<in> set (walk root) \<Longrightarrow> p \<noteq> []"
  by (cases root) (auto simp del: walk.simps(1) simp: in_walk_Dir)

lemma lookup_walk: "lookup root p = Some n \<Longrightarrow> p \<noteq> [] \<Longrightarrow> (p, n) \<in> set (walk root)"
proof (induction root p rule: lookup.induct)
  case (2 es x p)
  then obtain m where m: "map_of es x = Some m" "lookup m p = Some n"
    by (auto split: option.splits)
  then have e: "(x, m) \<in> set es" by (simp add: map_of_SomeD)
  show ?case
  proof (cases "p = []")
    case True
    with m e show ?thesis by (auto simp del: walk.simps simp: in_walk_Dir)
  next
    case False
    with 2 m have "(p, n) \<in> set (walk m)" by simp
    with e show ?thesis by (auto simp del: walk.simps simp: in_walk_Dir)
  qed
qed simp_all

lemma wf_fs_entry: "wf_fs (Dir es) \<Longrightarrow> (name, n) \<in> set es \<Longrightarrow> wf_fs n \<and> map_of es name = Some n"
  by (auto simp: list_all_iff)

lemma walk_lookup: "wf_fs root \<Longrightarrow> (p, n) \<in> set (walk root) \<Longrightarrow> lookup root p = Some n"
proof (induction root p arbitrary: n rule: lookup.induct)
  case (1 r)
  then show ?case using walk_nonempty by blast
next
  case (2 es x p)
  from 2(3) obtain m where m: "(x, m) \<in> set es" "p = [] \<and> n = m \<or> (p, n) \<in> set (walk m)"
    by (auto simp del: walk.simps simp: in_walk_Dir)
  with 2(2) have w: "wf_fs m" "map_of es x = Some m" using wf_fs_entry by blast+
  show ?case
  proof (cases "p = []")
    case True
    with m w walk_nonempty show ?thesis by auto
  next
    case False
    with m have "(p, n) \<in> set (walk m)" by simp
    with 2(1) [OF w(2) w(1)] w show ?thesis by simp
  qed
qed simp_all

lemma below_distinct:
  assumes "distinct (map fst es)"
    and "\<And>name n. (name, n) \<in> set es \<Longrightarrow> distinct (ws n)"
  shows "distinct (concat (map (\<lambda>(name, n). map ((#) name) (ws n)) es))"
  using assms
proof (induction es)
  case Nil
  show ?case by simp
next
  case (Cons e es)
  obtain name n where e: "e = (name, n)" by (cases e)
  have 1: "distinct (map ((#) name) (ws n))"
    using Cons.prems(2) [of name n] by (simp add: e distinct_map)
  have 2: "distinct (concat (map (\<lambda>(name, n). map ((#) name) (ws n)) es))"
  proof (rule Cons.IH)
    show "distinct (map fst es)" using Cons.prems(1) by simp
  next
    fix name n assume "(name, n) \<in> set es"
    then show "distinct (ws n)" using Cons.prems(2) [of name n] by simp
  qed
  have 3: "name \<notin> fst ` set es" using Cons.prems(1) by (simp add: e)
  have "set (map ((#) name) (ws n)) \<inter>
        set (concat (map (\<lambda>(name, n). map ((#) name) (ws n)) es)) = {}"
    using 3 by force
  with 1 2 show ?case by (simp add: e)
qed

lemma walk_paths:
  "map fst (walk (Dir es)) =
     map (\<lambda>x. [fst x]) es @
     concat (map (\<lambda>(name, n). map ((#) name) (map fst (walk n))) es)"
proof -
  have "(\<lambda>x. map (\<lambda>xa. fst x # fst xa) (walk (snd x))) =
        (\<lambda>(name, n). map (\<lambda>x. name # fst x) (walk n))"
    by (simp add: fun_eq_iff)
  then show ?thesis by (simp add: map_concat comp_def case_prod_beta)
qed

lemma walk_distinct: "wf_fs root \<Longrightarrow> distinct (map fst (walk root))"
proof (induction root rule: walk.induct)
  case (1 es)
  have d: "distinct (map fst es)" using 1(2) by simp
  have a: "distinct (map (\<lambda>x. [fst x]) es)"
    using d by (simp add: distinct_map inj_on_def)
  have b: "distinct (concat (map (\<lambda>(name, n). map ((#) name) (map fst (walk n))) es))"
  proof (rule below_distinct [OF d])
    fix name n assume m: "(name, n) \<in> set es"
    then have "wf_fs n" using 1(2) wf_fs_entry by blast
    with 1(1) [OF m] show "distinct (map fst (walk n))" by simp
  qed
  have c: "set (map (\<lambda>x. [fst x]) es) \<inter>
           set (concat (map (\<lambda>(name, n). map ((#) name) (map fst (walk n))) es)) = {}"
    using walk_nonempty by fastforce
  show ?case unfolding walk_paths using a b c by simp
qed simp_all

section \<open>What the loop and the run compute\<close>

lemma relative_to_prefix: "prefix rp f \<Longrightarrow> relative_to f rp = Inr (relative rp f)"
  by (simp add: relative_to_def relative_def)

lemma process_file_result:
  assumes "prefix rp f"
  shows "process_file markdown rp root i f st =
     Inr (st\<lparr>html_content := html_content st @ nav_item rp (i, f),
             content_sections := content_sections st @ section_of markdown rp root (i, f),
             printed := printed st @ skip_line markdown rp root (i, f)\<rparr>)"
  using assms
  by (simp add: process_file_def relative_to_prefix nav_item_def section_of_def skip_line_def
      Let_def split: sum.splits)

lemma process_files_result:
  "\<forall>x\<in>set ifs. prefix rp (snd x) \<Longrightarrow>
   process_files markdown rp root ifs st =
     Inr (st\<lparr>html_content := html_content st @ concat (nav_items rp ifs),
             content_sections := content_sections st @ sections_of markdown rp root ifs,
             printed := printed st @ skip_lines markdown rp root ifs\<rparr>)"
proof (induction ifs arbitrary: st)
  case Nil
  show ?case by (simp add: nav_items_def sections_of_def skip_lines_def)
next
  case (Cons x ifs)
  obtain i f where x: "x = (i, f)" by (cases x)
  have p: "prefix rp f" using Cons.prems x by simp
  have r: "\<forall>x\<in>set ifs. prefix rp (snd x)" using Cons.prems by simp
  show ?case
    unfolding x
    by (simp add: process_file_result [OF p] Cons.IH [OF r] nav_items_def sections_of_def
        skip_lines_def)
qed

lemma print_relative_result:
  "\<forall>f\<in>set fs. prefix rp f \<Longrightarrow>
   print_relative rp fs = Inr (map (\<lambda>f. Listed (relative rp f)) fs)"
  by (induction fs) (simp_all add: relative_to_prefix)

lemma rglob_all_prefix: "f \<in> set (rglob_all rp root) \<Longrightarrow> prefix rp f"
  by (auto simp: rglob_all_def)

lemma rglob_md_prefix: "f \<in> set (rglob_md rp root) \<Longrightarrow> prefix rp f"
  by (auto simp: rglob_md_def)

lemma discover_prefix: "f \<in> set (discover rp root) \<Longrightarrow> prefix rp f"
  by (auto simp: discover_def rglob_md_prefix)

lemma enumerate_prefix: "\<forall>x\<in>set (enumerate k (discover rp root)). prefix rp (snd x)"
proof
  fix x assume "x \<in> set (enumerate k (discover rp root))"
  then have "snd x \<in> set (discover rp root)"
    by (metis enumerate_eq_zip in_set_zipE prod.collapse)
  then show "prefix rp (snd x)" by (rule discover_prefix)
qed

lemma run_missing_root:
  "create_pdf_from_repo markdown write_pdf cwd store None rp output_name =
     Inr \<lparr>console = [Searching (absolute cwd rp), DirectoryExists False, NoDirectory rp],
          document = None, files = store\<rparr>"
  by (simp add: create_pdf_from_repo_def)

lemma run_no_matches:
  assumes "discover rp root = []"
  shows "create_pdf_from_repo markdown write_pdf cwd store (Some root) rp output_name =
     Inr \<lparr>console = [Searching (absolute cwd rp), DirectoryExists True, Found 0,
                     NoMarkdown rp, FilesInDirectory] @
                    map (\<lambda>f. Listed (relative rp f))
                      (filter (is_file rp root) (rglob_all rp root)),
          document = None, files = store\<rparr>"
proof -
  have "print_relative rp (filter (is_file rp root) (rglob_all rp root)) =
        Inr (map (\<lambda>f. Listed (relative rp f)) (filter (is_file rp root) (rglob_all rp root)))"
    by (rule print_relative_result) (auto intro: rglob_all_prefix)
  then show ?thesis
    by (simp add: create_pdf_from_repo_def assms)
qed

lemma run_assembled:
  assumes "discover rp root \<noteq> []"
  shows "create_pdf_from_repo markdown write_pdf cwd store (Some root) rp output_name =
     Inr \<lparr>console = [Searching (absolute cwd rp), DirectoryExists True] @
                    found_lines rp (discover rp root) @
                    skip_lines markdown rp root (enumerate 0 (discover rp root)) @
                    fst (generate_pdf write_pdf output_name
                           (composite markdown cwd root rp output_name) store),
          document = Some (composite markdown cwd root rp output_name),
          files = snd (generate_pdf write_pdf output_name
                         (composite markdown cwd root rp output_name) store)\<rparr>"
proof -
  have 1: "print_relative rp (take 10 (discover rp root)) =
        Inr (map (\<lambda>f. Listed (relative rp f)) (take 10 (discover rp root)))"
    by (rule print_relative_result) (auto dest: in_set_takeD discover_prefix)
  show ?thesis
    using assms
    by (simp add: create_pdf_from_repo_def 1 process_files_result [OF enumerate_prefix]
        composite_def found_lines_def Let_def case_prod_beta)
qed

lemma run_returns:
  "\<exists>r. create_pdf_from_repo markdown write_pdf cwd store root_opt rp output_name = Inr r"
proof (cases root_opt)
  case None
  then show ?thesis by (simp add: run_missing_root)
next
  case (Some root)
  show ?thesis
  proof (cases "discover rp root = []")
    case True
    then show ?thesis unfolding Some by (simp add: run_no_matches)
  next
    case False
    then show ?thesis unfolding Some by (simp add: run_assembled)
  qed
qed

section \<open>Positions and anchors\<close>

lemma distinct_enumerate_fst: "distinct (map fst (enumerate k xs))"
  by (simp add: enumerate_eq_zip)

lemma anchors_distinct_fst:
  "distinct (map fst ifs) \<Longrightarrow>
   distinct (map (\<lambda>x. anchor_of (fst x) (relative rp (snd x))) ifs)"
proof (induction ifs)
  case Nil
  show ?case by simp
next
  case (Cons x ifs)
  have "anchor_of (fst x) (relative rp (snd x)) \<notin>
        (\<lambda>y. anchor_of (fst y) (relative rp (snd y))) ` set ifs"
  proof
    assume "anchor_of (fst x) (relative rp (snd x)) \<in>
            (\<lambda>y. anchor_of (fst y) (relative rp (snd y))) ` set ifs"
    then obtain y where y: "y \<in> set ifs"
      "anchor_of (fst x) (relative rp (snd x)) = anchor_of (fst y) (relative rp (snd y))"
      by blast
    then have "fst x = fst y" using anchor_of_index by blast
    with y(1) Cons.prems show False by force
  qed
  with Cons show ?case by simp
qed

lemma anchors_enumerate_distinct:
  "distinct (map (\<lambda>x. anchor_of (fst x) (relative rp (snd x))) (enumerate k fs))"
  by (rule anchors_distinct_fst) (rule distinct_enumerate_fst)

lemma section_anchors:
  "set (map fst (sections_of markdown rp root ifs)) \<subseteq>
   (\<lambda>x. anchor_of (fst x) (relative rp (snd x))) ` set ifs"
  by (force simp: sections_of_def section_of_def split: sum.splits)

lemma sections_anchors_distinct:
  "distinct (map fst ifs) \<Longrightarrow> distinct (map fst (sections_of markdown rp root ifs))"
proof (induction ifs)
  case Nil
  show ?case by (simp add: sections_of_def)
next
  case (Cons x ifs)
  have s: "sections_of markdown rp root (x # ifs) =
           section_of markdown rp root x @ sections_of markdown rp root ifs"
    by (simp add: sections_of_def)
  have "anchor_of (fst x) (relative rp (snd x)) \<notin> set (map fst (sections_of markdown rp root ifs))"
  proof
    assume "anchor_of (fst x) (relative rp (snd x)) \<in> set (map fst (sections_of markdown rp root ifs))"
    then obtain y where y: "y \<in> set ifs"
      "anchor_of (fst x) (relative rp (snd x)) = anchor_of (fst y) (relative rp (snd y))"
      using section_anchors [of markdown rp root ifs] by blast
    then have "fst x = fst y" using anchor_of_index by blast
    with y(1) Cons.prems show False by force
  qed
  with Cons show ?case
    unfolding s by (auto simp: section_of_def split: sum.splits)
qed

section \<open>Discovery\<close>

lemma node_at_append: "node_at rp root (rp @ p) = lookup root p"
  by (simp add: node_at_def)

lemma is_file_append: "is_file rp root (rp @ p) \<longleftrightarrow> (\<exists>r. lookup root p = Some (File r))"
  by (auto simp: is_file_def node_at_append split: option.splits fsnode.splits)

lemma discover_set:
  "set (discover rp root) =
     {rp @ p | p. p \<noteq> [] \<and> fnmatch_md (last p) \<and> (\<exists>r. lookup root p = Some (File r))}"
proof (intro equalityI subsetI)
  fix f assume "f \<in> set (discover rp root)"
  then obtain p n where p: "f = rp @ p" "(p, n) \<in> set (walk root)" "fnmatch_md (last p)"
    and f: "is_file rp root f"
    by (auto simp: discover_def rglob_md_def)
  from p(2) have "p \<noteq> []" by (rule walk_nonempty)
  with p f show "f \<in> {rp @ p | p. p \<noteq> [] \<and> fnmatch_md (last p) \<and> (\<exists>r. lookup root p = Some (File r))}"
    by (auto simp: is_file_append)
next
  fix f assume "f \<in> {rp @ p | p. p \<noteq> [] \<and> fnmatch_md (last p) \<and> (\<exists>r. lookup root p = Some (File r))}"
  then obtain p r where p: "f = rp @ p" "p \<noteq> []" "fnmatch_md (last p)" "lookup root p = Some (File r)"
    by blast
  then have "(p, File r) \<in> set (walk root)" by (simp add: lookup_walk)
  with p have "f \<in> set (rglob_md rp root)" by (force simp: rglob_md_def)
  moreover have "is_file rp root f" using p by (simp add: is_file_append)
  ultimately show "f \<in> set (discover rp root)" by (simp add: discover_def)
qed

lemma rglob_md_map:
  "rglob_md rp root = map (\<lambda>x. rp @ fst x) (filter (\<lambda>x. fnmatch_md (last (fst x))) (walk root))"
proof -
  have "\<And>xs :: (path \<times> fsnode) list.
          concat (map (\<lambda>(p, n). if fnmatch_md (last p) then [rp @ p] else []) xs) =
          map (\<lambda>x. rp @ fst x) (filter (\<lambda>x. fnmatch_md (last (fst x))) xs)"
  proof -
    fix xs :: "(path \<times> fsnode) list"
    show "concat (map (\<lambda>(p, n). if fnmatch_md (last p) then [rp @ p] else []) xs) =
          map (\<lambda>x. rp @ fst x) (filter (\<lambda>x. fnmatch_md (last (fst x))) xs)"
      by (induction xs) auto
  qed
  then show ?thesis by (simp add: rglob_md_def)
qed

lemma discover_distinct: "wf_fs root \<Longrightarrow> distinct (discover rp root)"
proof -
  assume "wf_fs root"
  then have "distinct (map fst (walk root))" by (rule walk_distinct)
  then have "distinct (map fst (filter (\<lambda>x. fnmatch_md (last (fst x))) (walk root)))"
    by (rule distinct_map_filter)
  then have "distinct (map ((@) rp) (map fst (filter (\<lambda>x. fnmatch_md (last (fst x))) (walk root))))"
    by (simp add: distinct_map inj_on_def)
  then have "distinct (rglob_md rp root)" by (simp add: rglob_md_map comp_def)
  then show ?thesis by (simp add: discover_def)
qed

lemma discover_sorted: "sorted (discover rp root)"
  by (simp add: discover_def)

section \<open>Sections and navigation items\<close>

lemma sections_of_Cons:
  "sections_of markdown rp root (x # ifs) =
     section_of markdown rp root x @ sections_of markdown rp root ifs"
  by (simp add: sections_of_def)

lemma sections_entries:
  "map (\<lambda>s. (fst s, fst (snd s))) (sections_of markdown rp root ifs) =
   map (\<lambda>x. (anchor_of (fst x) (relative rp (snd x)), relative rp (snd x)))
     (filter (\<lambda>x. converted markdown rp root (snd x)) ifs)"
proof (induction ifs)
  case Nil
  show ?case by (simp add: sections_of_def)
next
  case (Cons x ifs)
  then show ?case
    by (simp add: sections_of_Cons section_of_def converted_def split: sum.splits)
qed

lemma filter_enumerate_snd:
  "map snd (filter (\<lambda>x. P (snd x)) (enumerate k xs)) = filter P xs"
  by (induction xs arbitrary: k) simp_all

lemma sections_paths:
  "map (\<lambda>s. fst (snd s)) (sections_of markdown rp root (enumerate k fs)) =
   map (relative rp) (filter (converted markdown rp root) fs)"
proof -
  have "map (\<lambda>s. fst (snd s)) (sections_of markdown rp root (enumerate k fs)) =
        map snd (map (\<lambda>s. (fst s, fst (snd s))) (sections_of markdown rp root (enumerate k fs)))"
    by (simp add: comp_def)
  also have "\<dots> = map (relative rp)
     (map snd (filter (\<lambda>x. converted markdown rp root (snd x)) (enumerate k fs)))"
    by (simp add: sections_entries comp_def)
  also have "\<dots> = map (relative rp) (filter (converted markdown rp root) fs)"
    by (simp only: filter_enumerate_snd)
  finally show ?thesis .
qed

lemma length_nav_items: "length (nav_items rp (enumerate k fs)) = length fs"
  by (simp add: nav_items_def)

lemma relative_distinct:
  "wf_fs root \<Longrightarrow> distinct (map (relative rp) (discover rp root))"
proof -
  assume "wf_fs root"
  then have d: "distinct (discover rp root)" by (rule discover_distinct)
  have "inj_on (relative rp) (set (discover rp root))"
  proof (rule inj_onI)
    fix f g
    assume "f \<in> set (discover rp root)" "g \<in> set (discover rp root)"
      and e: "relative rp f = relative rp g"
    then have "prefix rp f" "prefix rp g" by (auto dest: discover_prefix)
    then obtain p q where "f = rp @ p" "g = rp @ q" by (auto simp: prefix_def)
    with e show "f = g" by (simp add: relative_def)
  qed
  with d show ?thesis by (simp add: distinct_map)
qed

section \<open>The order in which a directory is listed\<close>

lemma in_md_entries:
  "(p, r) \<in> set (md_entries root) \<longleftrightarrow> (p, File r) \<in> set (walk root) \<and> fnmatch_md (last p)"
proof -
  have "\<And>xs :: (path \<times> fsnode) list.
    (p, r) \<in> set (concat (map (\<lambda>x. case x of (p, File r) \<Rightarrow> if fnmatch_md (last p) then [(p, r)] else []
                                      | (p, _) \<Rightarrow> []) xs)) \<longleftrightarrow>
    (p, File r) \<in> set xs \<and> fnmatch_md (last p)"
    by (force split: fsnode.splits if_splits)
  then show ?thesis by (simp add: md_entries_def)
qed

lemma md_entry_lookup:
  assumes "wf_fs root"
  shows "(p, r) \<in> set (md_entries root) \<longleftrightarrow>
         p \<noteq> [] \<and> fnmatch_md (last p) \<and> lookup root p = Some (File r)"
  using walk_lookup [OF assms, of p "File r"] lookup_walk [of root p "File r"]
    walk_nonempty [of p "File r" root]
  by (auto simp: in_md_entries)

lemma same_entries_same_files:
  assumes "wf_fs root1" and "wf_fs root2"
    and "set (md_entries root1) = set (md_entries root2)"
  shows "discover rp root1 = discover rp root2"
proof -
  have "set (discover rp root1) = set (discover rp root2)"
    unfolding discover_set
    using md_entry_lookup [OF assms(1)] md_entry_lookup [OF assms(2)] assms(3)
    by (metis (no_types, lifting))
  then show ?thesis
    using discover_sorted discover_distinct [OF assms(1)] discover_distinct [OF assms(2)]
    by (simp add: sorted_distinct_set_unique)
qed

lemma same_entries_same_text:
  assumes "wf_fs root1" and "wf_fs root2"
    and "set (md_entries root1) = set (md_entries root2)"
    and "f \<in> set (discover rp root1)"
  shows "read_file rp root1 f = read_file rp root2 f"
proof -
  from assms(4) obtain p r where p: "f = rp @ p" "p \<noteq> []" "fnmatch_md (last p)"
    "lookup root1 p = Some (File r)"
    unfolding discover_set by blast
  then have "(p, r) \<in> set (md_entries root1)" by (simp add: md_entry_lookup [OF assms(1)])
  then have "(p, r) \<in> set (md_entries root2)" by (simp only: assms(3))
  then have "lookup root2 p = Some (File r)" by (simp add: md_entry_lookup [OF assms(2)])
  with p show ?thesis by (simp add: read_file_def node_at_append)
qed

lemma same_entries_same_sections:
  assumes "wf_fs root1" and "wf_fs root2"
    and "set (md_entries root1) = set (md_entries root2)"
  shows "sections_of markdown rp root1 (enumerate k (discover rp root1)) =
         sections_of markdown rp root2 (enumerate k (discover rp root2))"
proof -
  have "\<And>x. x \<in> set (enumerate k (discover rp root1)) \<Longrightarrow>
          section_of markdown rp root1 x = section_of markdown rp root2 x"
  proof -
    fix x assume "x \<in> set (enumerate k (discover rp root1))"
    then have "snd x \<in> set (discover rp root1)"
      by (metis enumerate_eq_zip in_set_zipE prod.collapse)
    then have "read_file rp root1 (snd x) = read_file rp root2 (snd x)"
      by (rule same_entries_same_text [OF assms])
    then show "section_of markdown rp root1 x = section_of markdown rp root2 x"
      by (simp add: section_of_def try_convert_def)
  qed
  then have m: "map (section_of markdown rp root1) (enumerate k (discover rp root1)) =
                map (section_of markdown rp root2) (enumerate k (discover rp root1))"
    by (simp cong: map_cong)
  have d: "discover rp root1 = discover rp root2"
    by (rule same_entries_same_files [OF assms])
  show ?thesis unfolding sections_of_def m by (simp only: d)
qed

section \<open>The run with exceptions, when none is raised\<close>

lemma no_faults_simps [simp]:
  "root_error no_faults = None" "stat_error no_faults p = None" "unencodable no_faults n = False"
  by (simp_all add: no_faults_def)

lemma encodable_no_faults [simp]: "encodable no_faults p"
  by (simp add: encodable_def list_all_iff)

lemma converted_iff:
  "converted markdown rp root f \<longleftrightarrow>
     (\<exists>c h. read_file rp root f = Inr c \<and> strip c \<noteq> [] \<and> markdown c = Inr h)"
  by (auto simp: converted_def try_convert_def split: sum.splits)

lemma encodable_relative: "encodable fl f \<Longrightarrow> encodable fl (relative rp f)"
  by (auto simp: encodable_def relative_def list_all_iff dest: in_set_dropD)

lemma collect_files_result:
  "\<forall>p\<in>set ps. stat_error fl p = None \<Longrightarrow>
   collect_files fl rp root ps = Inr (filter (is_file rp root) ps)"
  by (induction ps) (simp_all add: is_file_os_def)

lemma collect_files_raises:
  "\<exists>p\<in>set ps. stat_error fl p \<noteq> None \<Longrightarrow>
   \<exists>e. collect_files fl rp root ps = Inl (OSError e)"
proof (induction ps)
  case Nil
  then show ?case by simp
next
  case (Cons p ps)
  show ?case
  proof (cases "stat_error fl p")
    case (Some e)
    then show ?thesis by (simp add: is_file_os_def)
  next
    case None
    with Cons.prems have "\<exists>p\<in>set ps. stat_error fl p \<noteq> None" by auto
    then obtain e where "collect_files fl rp root ps = Inl (OSError e)"
      using Cons.IH by blast
    with None show ?thesis by (simp add: is_file_os_def)
  qed
qed

lemma discover_os_result:
  "\<forall>p\<in>set (rglob_md rp root). stat_error fl p = None \<Longrightarrow>
   discover_os fl rp root = Inr (discover rp root)"
  by (simp add: discover_os_def discover_def collect_files_result)

lemma discover_os_raises:
  "\<exists>p\<in>set (rglob_md rp root). stat_error fl p \<noteq> None \<Longrightarrow>
   \<exists>e. discover_os fl rp root = Inl (OSError e)"
  using collect_files_raises [of "rglob_md rp root" fl rp root]
  by (auto simp: discover_os_def)

lemma print_relative_os_result:
  "\<forall>f\<in>set fs. prefix rp f \<and> encodable fl (relative rp f) \<Longrightarrow>
   print_relative_os fl rp fs = Inr (map (\<lambda>f. Listed (relative rp f)) fs)"
  by (induction fs) (simp_all add: relative_to_prefix print_path_def)

lemma list_files_os_result:
  "\<forall>p\<in>set ps. stat_error fl p = None \<and> prefix rp p \<and>
      (is_file rp root p \<longrightarrow> encodable fl (relative rp p)) \<Longrightarrow>
   list_files_os fl rp root ps =
     Inr (map (\<lambda>f. Listed (relative rp f)) (filter (is_file rp root) ps))"
  by (induction ps) (simp_all add: is_file_os_def relative_to_prefix print_path_def)

lemma process_file_os_plain:
  assumes "prefix rp f" and "encodable fl f \<or> converted markdown rp root f"
  shows "process_file_os fl markdown rp root i f st = process_file markdown rp root i f st"
proof (cases "encodable fl f")
  case True
  then have "encodable fl (relative rp f)" by (rule encodable_relative)
  with True assms(1) show ?thesis
    by (simp add: process_file_os_def process_file_def relative_to_prefix try_convert_def
        except_clause_def Let_def split: sum.splits)
next
  case False
  with assms(2) obtain c h where "read_file rp root f = Inr c" "strip c \<noteq> []"
    "markdown c = Inr h"
    by (auto simp: converted_iff)
  with assms(1) show ?thesis
    by (simp add: process_file_os_def process_file_def relative_to_prefix try_convert_def
        Let_def)
qed

lemma process_file_os_aborts:
  assumes "prefix rp f" and "\<not> encodable fl (relative rp f)"
    and "\<not> converted markdown rp root f"
  shows "process_file_os fl markdown rp root i f st = Inl UnicodeEncodeError"
proof -
  have n: "\<not> encodable fl f" using assms(2) encodable_relative by blast
  show ?thesis
  proof (cases "read_file rp root f")
    case (Inl e)
    with assms(1) n show ?thesis
      by (simp add: process_file_os_def relative_to_prefix except_clause_def Let_def)
  next
    case (Inr c)
    show ?thesis
    proof (cases "strip c = []")
      case True
      with Inr assms(1,2) n show ?thesis
        by (simp add: process_file_os_def relative_to_prefix except_clause_def Let_def)
    next
      case False
      with Inr assms(3) obtain e where "markdown c = Inl e"
        by (cases "markdown c") (auto simp: converted_iff)
      with Inr False assms(1) n show ?thesis
        by (simp add: process_file_os_def relative_to_prefix except_clause_def Let_def)
    qed
  qed
qed

lemma process_files_os_plain:
  "\<forall>x\<in>set ifs. prefix rp (snd x) \<and>
      (encodable fl (snd x) \<or> converted markdown rp root (snd x)) \<Longrightarrow>
   process_files_os fl markdown rp root ifs st = process_files markdown rp root ifs st"
proof (induction ifs arbitrary: st)
  case Nil
  show ?case by simp
next
  case (Cons x ifs)
  obtain i f where x: "x = (i, f)" by (cases x)
  have 1: "process_file_os fl markdown rp root i f st = process_file markdown rp root i f st"
    using Cons.prems by (intro process_file_os_plain) (simp_all add: x)
  have 2: "\<And>st'. process_files_os fl markdown rp root ifs st' =
                 process_files markdown rp root ifs st'"
    using Cons.prems by (intro Cons.IH) simp
  show ?case unfolding x
    by (cases "process_file markdown rp root i f st") (simp_all add: 1 2)
qed

lemma generate_pdf_os_plain:
  "\<not> unencodable fl (output_name @ ''.pdf'') \<Longrightarrow> encodable fl cwd \<Longrightarrow>
   generate_pdf_os fl write_pdf cwd output_name html store =
     generate_pdf write_pdf output_name html store"
  by (simp add: generate_pdf_os_def generate_pdf_def Let_def split: prod.splits option.splits)

lemma rglob_md_subset: "set (rglob_md rp root) \<subseteq> set (rglob_all rp root)"
  by (auto simp: rglob_md_def rglob_all_def)

lemma run_os_missing_root:
  assumes "root_error fl = None" and "encodable fl (absolute cwd rp)" and "encodable fl rp"
  shows "create_pdf_from_repo_os fl markdown write_pdf cwd store None rp output_name =
         create_pdf_from_repo markdown write_pdf cwd store None rp output_name"
  using assms by (simp add: create_pdf_from_repo_os_def create_pdf_from_repo_def exists_os_def)

lemma run_os_no_matches:
  assumes "root_error fl = None" and "encodable fl (absolute cwd rp)" and "encodable fl rp"
    and "\<forall>p\<in>set (rglob_all rp root). stat_error fl p = None \<and>
           (is_file rp root p \<longrightarrow> encodable fl (relative rp p))"
    and "discover rp root = []"
  shows "create_pdf_from_repo_os fl markdown write_pdf cwd store (Some root) rp output_name =
         create_pdf_from_repo markdown write_pdf cwd store (Some root) rp output_name"
proof -
  have d: "discover_os fl rp root = Inr []"
    using assms(4,5) rglob_md_subset [of rp root] by (subst discover_os_result) auto
  have l: "list_files_os fl rp root (rglob_all rp root) =
           Inr (map (\<lambda>f. Listed (relative rp f)) (filter (is_file rp root) (rglob_all rp root)))"
    using assms(4) by (intro list_files_os_result) (auto intro: rglob_all_prefix)
  show ?thesis
    using assms(1,2,3)
    by (simp add: create_pdf_from_repo_os_def exists_os_def d l run_no_matches [OF assms(5)])
qed

lemma run_os_assembled:
  assumes "root_error fl = None" and "encodable fl (absolute cwd rp)"
    and "\<forall>p\<in>set (rglob_md rp root). stat_error fl p = None"
    and "\<forall>f\<in>set (discover rp root). encodable fl f"
    and "discover rp root \<noteq> []"
  shows "create_pdf_from_repo_os fl markdown write_pdf cwd store (Some root) rp output_name =
     Inr \<lparr>console = [Searching (absolute cwd rp), DirectoryExists True] @
                    found_lines rp (discover rp root) @
                    skip_lines markdown rp root (enumerate 0 (discover rp root)) @
                    fst (generate_pdf_os fl write_pdf cwd output_name
                           (composite markdown cwd root rp output_name) store),
          document = Some (composite markdown cwd root rp output_name),
          files = snd (generate_pdf_os fl write_pdf cwd output_name
                         (composite markdown cwd root rp output_name) store)\<rparr>"
proof -
  have d: "discover_os fl rp root = Inr (discover rp root)"
    using assms(3) by (rule discover_os_result)
  have 1: "print_relative_os fl rp (take 10 (discover rp root)) =
        Inr (map (\<lambda>f. Listed (relative rp f)) (take 10 (discover rp root)))"
    using assms(4)
    by (intro print_relative_os_result) (auto dest: in_set_takeD discover_prefix encodable_relative)
  have 2: "\<And>st. process_files_os fl markdown rp root (enumerate 0 (discover rp root)) st =
                process_files markdown rp root (enumerate 0 (discover rp root)) st"
  proof (rule process_files_os_plain, rule ballI)
    fix x assume "x \<in> set (enumerate 0 (discover rp root))"
    then have "snd x \<in> set (discover rp root)"
      by (metis enumerate_eq_zip in_set_zipE prod.collapse)
    with assms(4) discover_prefix
    show "prefix rp (snd x) \<and> (encodable fl (snd x) \<or> converted markdown rp root (snd x))"
      by blast
  qed
  show ?thesis
    using assms(1,2,5)
    by (simp add: create_pdf_from_repo_os_def exists_os_def d 1 2
        process_files_result [OF enumerate_prefix] composite_def found_lines_def Let_def
        case_prod_beta)
qed

lemma run_os_no_faults:
  "create_pdf_from_repo_os no_faults markdown write_pdf cwd store root_opt rp output_name =
   create_pdf_from_repo markdown write_pdf cwd store root_opt rp output_name"
proof (cases root_opt)
  case None
  show ?thesis unfolding None by (rule run_os_missing_root) simp_all
next
  case (Some root)
  show ?thesis
  proof (cases "discover rp root = []")
    case True
    show ?thesis unfolding Some
      by (rule run_os_no_matches [OF _ _ _ _ True]) simp_all
  next
    case False
    have g: "\<And>html. generate_pdf_os no_faults write_pdf cwd output_name html store =
                   generate_pdf write_pdf output_name html store"
      by (rule generate_pdf_os_plain) simp_all
    have "create_pdf_from_repo_os no_faults markdown write_pdf cwd store (Some root) rp
            output_name =
          Inr \<lparr>console = [Searching (absolute cwd rp), DirectoryExists True] @
                    found_lines rp (discover rp root) @
                    skip_lines markdown rp root (enumerate 0 (discover rp root)) @
                    fst (generate_pdf_os no_faults write_pdf cwd output_name
                           (composite markdown cwd root rp output_name) store),
               document = Some (composite markdown cwd root rp output_name),
               files = snd (generate_pdf_os no_faults write_pdf cwd output_name
                         (composite markdown cwd root rp output_name) store)\<rparr>"
      by (rule run_os_assembled [OF _ _ _ _ False]) simp_all
    then show ?thesis unfolding Some by (simp add: g run_assembled [OF False])
  qed
qed

section \<open>The run with exceptions, when it returns\<close>

lemma collect_files_returns:
  "collect_files fl rp root ps = Inr xs \<Longrightarrow> xs = filter (is_file rp root) ps"
proof (induction ps arbitrary: xs)
  case Nil
  then show ?case by simp
next
  case (Cons p ps)
  then show ?case
    by (auto simp: is_file_os_def split: option.splits sum.splits if_splits)
qed

lemma discover_os_returns: "discover_os fl rp root = Inr md \<Longrightarrow> md = discover rp root"
  by (auto simp: discover_os_def discover_def split: sum.splits dest: collect_files_returns)

lemma print_relative_os_returns:
  "print_relative_os fl rp fs = Inr evs \<Longrightarrow> print_relative rp fs = Inr evs"
proof (induction fs arbitrary: evs)
  case Nil
  then show ?case by simp
next
  case (Cons f fs)
  then show ?case
    by (auto simp: print_path_def split: sum.splits if_splits)
qed

lemma filter_is_file_Cons:
  "print_relative rp (filter (is_file rp root) (p # ps)) =
     (if is_file rp root p
      then (case relative_to p rp of
              Inl e \<Rightarrow> Inl e
            | Inr rel \<Rightarrow>
                (case print_relative rp (filter (is_file rp root) ps) of
                   Inl e \<Rightarrow> Inl e
                 | Inr evs \<Rightarrow> Inr (Listed rel # evs)))
      else print_relative rp (filter (is_file rp root) ps))"
  by simp

lemma list_files_os_returns:
  "list_files_os fl rp root ps = Inr evs \<Longrightarrow>
   print_relative rp (filter (is_file rp root) ps) = Inr evs"
proof (induction ps arbitrary: evs)
  case Nil
  then show ?case by simp
next
  case (Cons p ps)
  show ?case
  proof (cases "is_file rp root p")
    case True
    with Cons.prems obtain rel evs' where r: "relative_to p rp = Inr rel"
      "list_files_os fl rp root ps = Inr evs'" "evs = Listed rel # evs'"
      by (auto simp: is_file_os_def print_path_def split: option.splits sum.splits if_splits)
    from Cons.IH [OF r(2)] r True show ?thesis
      unfolding filter_is_file_Cons by simp
  next
    case False
    with Cons.prems have "list_files_os fl rp root ps = Inr evs"
      by (auto simp: is_file_os_def split: option.splits)
    from Cons.IH [OF this] False show ?thesis
      unfolding filter_is_file_Cons by simp
  qed
qed

lemma process_file_os_returns:
  assumes "process_file_os fl markdown rp root i f st = Inr st'"
  shows "process_file markdown rp root i f st = Inr st'"
proof -
  from assms have p: "prefix rp f"
    by (auto simp: process_file_os_def relative_to_def split: if_splits)
  show ?thesis
  proof (cases "encodable fl (relative rp f) \<or> converted markdown rp root f")
    case False
    then have "process_file_os fl markdown rp root i f st = Inl UnicodeEncodeError"
      using p by (intro process_file_os_aborts) simp_all
    with assms show ?thesis by simp
  next
    case True
    show ?thesis
    proof (cases "encodable fl f \<or> converted markdown rp root f")
      case True
      from process_file_os_plain [OF p True] assms show ?thesis by simp
    next
      case False
      then have n: "\<not> encodable fl f" "\<not> converted markdown rp root f" by simp_all
      have "process_file_os fl markdown rp root i f st = Inl UnicodeEncodeError \<or>
            (\<exists>c. read_file rp root f = Inr c \<and> strip c = [])"
        using p n
        by (auto simp: process_file_os_def relative_to_prefix except_clause_def Let_def
            converted_iff split: sum.splits)
      with assms obtain c where c: "read_file rp root f = Inr c" "strip c = []" by auto
      from \<open>encodable fl (relative rp f) \<or> converted markdown rp root f\<close> n
      have e: "encodable fl (relative rp f)" by simp
      from p c e assms show ?thesis
        by (simp add: process_file_os_def process_file_def relative_to_prefix try_convert_def
            Let_def)
    qed
  qed
qed

lemma process_files_os_returns:
  "process_files_os fl markdown rp root ifs st = Inr st' \<Longrightarrow>
   process_files markdown rp root ifs st = Inr st'"
proof (induction ifs arbitrary: st)
  case Nil
  then show ?case by simp
next
  case (Cons x ifs)
  obtain i f where x: "x = (i, f)" by (cases x)
  from Cons.prems obtain st1 where 1: "process_file_os fl markdown rp root i f st = Inr st1"
    and 2: "process_files_os fl markdown rp root ifs st1 = Inr st'"
    unfolding x by (auto split: sum.splits)
  from process_file_os_returns [OF 1] Cons.IH [OF 2] show ?case
    unfolding x by simp
qed

lemma run_os_returns:
  assumes "create_pdf_from_repo_os fl markdown write_pdf cwd store root_opt rp output_name =
             Inr r"
  shows "\<exists>r'. create_pdf_from_repo markdown write_pdf cwd store root_opt rp output_name =
                 Inr r' \<and> document r' = document r"
proof -
  have a: "encodable fl (absolute cwd rp)"
    using assms by (simp add: create_pdf_from_repo_os_def split: if_splits)
  have b: "root_error fl = None"
    using assms a by (simp add: create_pdf_from_repo_os_def exists_os_def split: option.splits)
  have ex: "exists_os fl root_opt = Inr (root_opt \<noteq> None)"
    using b by (simp add: exists_os_def)
  show ?thesis
  proof (cases root_opt)
    case None
    with assms a ex show ?thesis
      by (auto simp: create_pdf_from_repo_os_def create_pdf_from_repo_def split: if_splits)
  next
    case (Some root)
    note run = assms [unfolded Some create_pdf_from_repo_os_def, simplified a ex [unfolded Some]]
    obtain md where d: "discover_os fl rp root = Inr md"
      using run by (cases "discover_os fl rp root") simp_all
    have md: "md = discover rp root" using d by (rule discover_os_returns)
    have d': "discover_os fl rp root = Inr (discover rp root)" using d md by simp
    obtain first10 where f: "print_relative_os fl rp (take 10 (discover rp root)) = Inr first10"
      using run by (cases "print_relative_os fl rp (take 10 (discover rp root))") (simp_all add: d')
    have "print_relative rp (take 10 (discover rp root)) =
          Inr (map (\<lambda>f. Listed (relative rp f)) (take 10 (discover rp root)))"
      by (rule print_relative_result) (auto dest: in_set_takeD discover_prefix)
    with print_relative_os_returns [OF f]
    have f10: "first10 = map (\<lambda>f. Listed (relative rp f)) (take 10 (discover rp root))"
      by simp
    show ?thesis
    proof (cases "discover rp root = []")
      case True
      from run have "document r = None"
        by (auto simp: d' f True split: if_splits sum.splits)
      then show ?thesis unfolding Some by (simp add: run_no_matches [OF True])
    next
      case False
      obtain st where
        st: "process_files_os fl markdown rp root (enumerate 0 (discover rp root))
               \<lparr>html_content = html_start output_name (absolute cwd rp)
                                 (length (discover rp root)),
                content_sections = [],
                printed = Searching (absolute cwd rp) # DirectoryExists True #
                          Found (length (discover rp root)) # first10 @
                          (if 10 < length (discover rp root)
                           then [MoreFiles (length (discover rp root) - 10)] else [])\<rparr> =
             Inr st"
        using run
        by (cases "process_files_os fl markdown rp root (enumerate 0 (discover rp root))
               \<lparr>html_content = html_start output_name (absolute cwd rp)
                                 (length (discover rp root)),
                content_sections = [],
                printed = Searching (absolute cwd rp) # DirectoryExists True #
                          Found (length (discover rp root)) # first10 @
                          (if 10 < length (discover rp root)
                           then [MoreFiles (length (discover rp root) - 10)] else [])\<rparr>")
          (simp_all add: d' f False)
      from run have r: "document r = Some (html_content st @ toc_close @
                concat (map file_section (content_sections st)) @ html_end)"
        by (auto simp: d' f False st case_prod_beta Let_def)
      from process_files_os_returns [OF st]
      have "document r = Some (composite markdown cwd root rp output_name)"
        by (auto simp: r process_files_result [OF enumerate_prefix] composite_def f10)
      then show ?thesis unfolding Some by (simp add: run_assembled [OF False])
    qed
  qed
qed

section \<open>The composite document, written out\<close>

lemma nav_markup:
  \<open>nav_items repo_path ifs =
     map (\<lambda>x.
                ''<li style="margin-left: '' @
                str_int ((int (length (drop (length repo_path) (snd x))) - 1) * 20) @
                ''px;"><a href="#section-'' @ str_nat (fst x) @ ''-'' @
                sanitize_anchor (path_str (drop (length repo_path) (snd x))) @ ''">'' @
                path_str (drop (length repo_path) (snd x)) @ ''</a></li>\<newline>'')
       ifs\<close>
  by (simp add: nav_items_def nav_item_def toc_item_def anchor_of_def indent_style_def
      relative_def)

lemma sections_markup:
  \<open>concat (map file_section (sections_of markdown repo_path root ifs)) =
     concat (map (\<lambda>x.
                case read_file repo_path root (snd x) of
                  Inl e \<Rightarrow> []
                | Inr md_content \<Rightarrow>
                    if strip md_content = [] then []
                    else
                      (case markdown md_content of
                         Inl e \<Rightarrow> []
                       | Inr html_section \<Rightarrow>
                           ''\<newline>        <div class="file-section" id="section-'' @
                           str_nat (fst x) @ ''-'' @
                           sanitize_anchor (path_str (drop (length repo_path) (snd x))) @ ''">\<newline>'' @
                           ''            <div class="file-path">'' @
                           path_str (drop (length repo_path) (snd x)) @ ''</div>\<newline>'' @
                           ''            '' @ html_section @ ''\<newline>'' @
                           ''        </div>\<newline>'' @
                           ''        ''))
       ifs)\<close>
  by (induction ifs)
    (simp_all add: sections_of_def section_of_def try_convert_def file_section_def
      anchor_of_def relative_def split: sum.splits)

lemma composite_markup:
  \<open>composite markdown cwd root repo_path output_name =
             html_start output_name (absolute cwd repo_path) (length (discover repo_path root)) @
             concat (map (\<lambda>x.
                ''<li style="margin-left: '' @
                str_int ((int (length (drop (length repo_path) (snd x))) - 1) * 20) @
                ''px;"><a href="#section-'' @ str_nat (fst x) @ ''-'' @
                sanitize_anchor (path_str (drop (length repo_path) (snd x))) @ ''">'' @
                path_str (drop (length repo_path) (snd x)) @ ''</a></li>\<newline>'')
               (enumerate 0 (discover repo_path root))) @
             ''\<newline>            </ul>\<newline>        </div>\<newline>    '' @
             concat (map (\<lambda>x.
                case read_file repo_path root (snd x) of
                  Inl e \<Rightarrow> []
                | Inr md_content \<Rightarrow>
                    if strip md_content = [] then []
                    else
                      (case markdown md_content of
                         Inl e \<Rightarrow> []
                       | Inr html_section \<Rightarrow>
                           ''\<newline>        <div class="file-section" id="section-'' @
                           str_nat (fst x) @ ''-'' @
                           sanitize_anchor (path_str (drop (length repo_path) (snd x))) @ ''">\<newline>'' @
                           ''            <div class="file-path">'' @
                           path_str (drop (length repo_path) (snd x)) @ ''</div>\<newline>'' @
                           ''            '' @ html_section @ ''\<newline>'' @
                           ''        </div>\<newline>'' @
                           ''        ''))
               (enumerate 0 (discover repo_path root))) @
             ''</body></html>''\<close>
  by (simp only: composite_def nav_markup sections_markup toc_close_def html_end_def)

section \<open>The navigation list and the skipped files\<close>

text \<open>
  Claim C1, as written: the navigation list has exactly one entry per successfully processed
  file, and a file skipped as empty or unreadable appears neither in the navigation list nor
  in the body. The loop appends the navigation item of a file before it opens the file, so
  in the scenario with \<open>a.md\<close>, an empty \<open>sub/b.md\<close> and \<open>c.md\<close> the document has three
  navigation items, the third for the skipped \<open>sub/b.md\<close>, and two body sections.
\<close>

theorem navigation_lists_skipped_file_counterexample:
  \<open>read_file [''/'', ''docs''] example_root [''/'', ''docs'', ''sub'', ''b.md''] = Inr '''' \<and>
   map_sum id document
     (create_pdf_from_repo example_markdown example_write_pdf [''/'', ''w''] Map.empty
        (Some example_root) [''/'', ''docs''] ''MCP-docs'') =
     Inr (Some (
       ''\<newline>'' @
       ''    <!DOCTYPE html>\<newline>'' @
       ''    <html>\<newline>'' @
       ''    <head>\<newline>'' @
       ''        <meta charset="UTF-8">\<newline>'' @
       ''        <title>MCP-docs Documentation</title>\<newline>'' @
       ''    </head>\<newline>'' @
       ''    <body>\<newline>'' @
       ''        <h1>MCP-docs Documentation</h1>\<newline>'' @
       ''        <p>Generated from: <code>/docs</code></p>\<newline>'' @
       ''        <p>Total files: 3</p>\<newline>'' @
       ''\<newline>'' @
       ''        <div class="toc">\<newline>'' @
       ''            <h2>Table of Contents</h2>\<newline>'' @
       ''            <ul>\<newline>'' @
       ''    <li style="margin-left: 0px;"><a href="#section-0-amd">a.md</a></li>\<newline>'' @
       ''<li style="margin-left: 0px;"><a href="#section-1-cmd">c.md</a></li>\<newline>'' @
       ''<li style="margin-left: 20px;"><a href="#section-2-subbmd">sub/b.md</a></li>\<newline>'' @
       ''\<newline>'' @
       ''            </ul>\<newline>'' @
       ''        </div>\<newline>'' @
       ''    \<newline>'' @
       ''        <div class="file-section" id="section-0-amd">\<newline>'' @
       ''            <div class="file-path">a.md</div>\<newline>'' @
       ''            <p># Title\<newline>'' @
       ''\<newline>'' @
       ''hello</p>\<newline>'' @
       ''        </div>\<newline>'' @
       ''        \<newline>'' @
       ''        <div class="file-section" id="section-1-cmd">\<newline>'' @
       ''            <div class="file-path">c.md</div>\<newline>'' @
       ''            <p>## X</p>\<newline>'' @
       ''        </div>\<newline>'' @
       ''        </body></html>''))\<close>
  by code_simp

text \<open>
  Claim C1, amended: in every run that reaches the assembly, the navigation list has
  exactly one item per discovered file, in discovery order, also for a file that is then
  skipped as empty or unreadable; the body has exactly one section per successfully
  processed file, and none for a skipped file. The document is the header, one \<open>li\<close>
  item for every pair of \<open>enumerate(md_files)\<close>, the end of the list, then for every pair
  again either nothing (the file cannot be read, is blank, or is not converted) or its
  \<open>file-section\<close> block, and the closing tags. Every run of the same inputs in which a
  \<open>stat\<close> call or a \<open>print\<close> may raise, and which returns, has this same document.
\<close>

theorem navigation_lists_every_discovered_file:
  assumes "discover repo_path root \<noteq> []"
  shows \<open>\<exists>r. create_pdf_from_repo markdown write_pdf cwd store (Some root) repo_path
               output_name = Inr r \<and>
     map snd (enumerate 0 (discover repo_path root)) = discover repo_path root \<and>
     document r =
       Some (html_start output_name (absolute cwd repo_path) (length (discover repo_path root)) @
             concat (map (\<lambda>x.
                ''<li style="margin-left: '' @
                str_int ((int (length (drop (length repo_path) (snd x))) - 1) * 20) @
                ''px;"><a href="#section-'' @ str_nat (fst x) @ ''-'' @
                sanitize_anchor (path_str (drop (length repo_path) (snd x))) @ ''">'' @
                path_str (drop (length repo_path) (snd x)) @ ''</a></li>\<newline>'')
               (enumerate 0 (discover repo_path root))) @
             ''\<newline>            </ul>\<newline>        </div>\<newline>    '' @
             concat (map (\<lambda>x.
                case read_file repo_path root (snd x) of
                  Inl e \<Rightarrow> []
                | Inr md_content \<Rightarrow>
                    if strip md_content = [] then []
                    else
                      (case markdown md_content of
                         Inl e \<Rightarrow> []
                       | Inr html_section \<Rightarrow>
                           ''\<newline>        <div class="file-section" id="section-'' @
                           str_nat (fst x) @ ''-'' @
                           sanitize_anchor (path_str (drop (length repo_path) (snd x))) @ ''">\<newline>'' @
                           ''            <div class="file-path">'' @
                           path_str (drop (length repo_path) (snd x)) @ ''</div>\<newline>'' @
                           ''            '' @ html_section @ ''\<newline>'' @
                           ''        </div>\<newline>'' @
                           ''        ''))
               (enumerate 0 (discover repo_path root))) @
             ''</body></html>'') \<and>
     (\<forall>fl r'. create_pdf_from_repo_os fl markdown write_pdf cwd store (Some root) repo_path
                output_name = Inr r' \<longrightarrow> document r' = document r)\<close>
proof -
  have o: "document r' = Some (composite markdown cwd root repo_path output_name)"
    if "create_pdf_from_repo_os fl markdown write_pdf cwd store (Some root) repo_path
          output_name = Inr r'" for fl r'
    using run_os_returns [OF that] by (auto simp: run_assembled [OF assms])
  show ?thesis
    unfolding run_assembled [OF assms]
    by (intro exI conjI)
      (rule refl, simp add: enumerate_eq_zip, simp add: composite_markup, use o in auto)
qed

theorem navigation_lists_every_discovered_file_witness:
  \<open>discover [''/'', ''docs''] example_root \<noteq> [] \<and>
   discover [''/'', ''docs''] example_root =
     [[''/'', ''docs'', ''a.md''], [''/'', ''docs'', ''c.md''],
      [''/'', ''docs'', ''sub'', ''b.md'']] \<and>
   read_file [''/'', ''docs''] example_root [''/'', ''docs'', ''sub'', ''b.md''] = Inr '''' \<and>
   (\<exists>r. create_pdf_from_repo example_markdown example_write_pdf [''/'', ''w''] Map.empty
          (Some example_root) [''/'', ''docs''] ''MCP-docs'' = Inr r \<and>
        document r = Some (
       ''\<newline>'' @
       ''    <!DOCTYPE html>\<newline>'' @
       ''    <html>\<newline>'' @
       ''    <head>\<newline>'' @
       ''        <meta charset="UTF-8">\<newline>'' @
       ''        <title>MCP-docs Documentation</title>\<newline>'' @
       ''    </head>\<newline>'' @
       ''    <body>\<newline>'' @
       ''        <h1>MCP-docs Documentation</h1>\<newline>'' @
       ''        <p>Generated from: <code>/docs</code></p>\<newline>'' @
       ''        <p>Total files: 3</p>\<newline>'' @
       ''\<newline>'' @
       ''        <div class="toc">\<newline>'' @
       ''            <h2>Table of Contents</h2>\<newline>'' @
       ''            <ul>\<newline>'' @
       ''    <li style="margin-left: 0px;"><a href="#section-0-amd">a.md</a></li>\<newline>'' @
       ''<li style="margin-left: 0px;"><a href="#section-1-cmd">c.md</a></li>\<newline>'' @
       ''<li style="margin-left: 20px;"><a href="#section-2-subbmd">sub/b.md</a></li>\<newline>'' @
       ''\<newline>'' @
       ''            </ul>\<newline>'' @
       ''        </div>\<newline>'' @
       ''    \<newline>'' @
       ''        <div class="file-section" id="section-0-amd">\<newline>'' @
       ''            <div class="file-path">a.md</div>\<newline>'' @
       ''            <p># Title\<newline>'' @
       ''\<newline>'' @
       ''hello</p>\<newline>'' @
       ''        </div>\<newline>'' @
       ''        \<newline>'' @
       ''        <div class="file-section" id="section-1-cmd">\<newline>'' @
       ''            <div class="file-path">c.md</div>\<newline>'' @
       ''            <p>## X</p>\<newline>'' @
       ''        </div>\<newline>'' @
       ''        </body></html>'') \<and>
        (\<exists>r'. create_pdf_from_repo_os example_bad_cwd example_markdown example_write_pdf
               [''/'', ''w''] Map.empty (Some example_root) [''/'', ''docs''] ''MCP-docs'' = Inr r' \<and>
           document r' = document r))\<close>
proof -
  let ?rp = "[''/'', ''docs'']"
  have d: "discover ?rp example_root \<noteq> []" by code_simp
  have m: "discover ?rp example_root =
     [[''/'', ''docs'', ''a.md''], [''/'', ''docs'', ''c.md''],
      [''/'', ''docs'', ''sub'', ''b.md'']]"
    by code_simp
  have b: "read_file ?rp example_root [''/'', ''docs'', ''sub'', ''b.md''] = Inr ''''"
    by code_simp
  have e: \<open>html_start ''MCP-docs'' (absolute [''/'', ''w''] [''/'', ''docs'']) (length (discover [''/'', ''docs''] example_root)) @
             concat (map (\<lambda>x.
                ''<li style="margin-left: '' @
                str_int ((int (length (drop (length [''/'', ''docs'']) (snd x))) - 1) * 20) @
                ''px;"><a href="#section-'' @ str_nat (fst x) @ ''-'' @
                sanitize_anchor (path_str (drop (length [''/'', ''docs'']) (snd x))) @ ''">'' @
                path_str (drop (length [''/'', ''docs'']) (snd x)) @ ''</a></li>\<newline>'')
               (enumerate 0 (discover [''/'', ''docs''] example_root))) @
             ''\<newline>            </ul>\<newline>        </div>\<newline>    '' @
             concat (map (\<lambda>x.
                case read_file [''/'', ''docs''] example_root (snd x) of
                  Inl e \<Rightarrow> []
                | Inr md_content \<Rightarrow>
                    if strip md_content = [] then []
                    else
                      (case example_markdown md_content of
                         Inl e \<Rightarrow> []
                       | Inr html_section \<Rightarrow>
                           ''\<newline>        <div class="file-section" id="section-'' @
                           str_nat (fst x) @ ''-'' @
                           sanitize_anchor (path_str (drop (length [''/'', ''docs'']) (snd x))) @ ''">\<newline>'' @
                           ''            <div class="file-path">'' @
                           path_str (drop (length [''/'', ''docs'']) (snd x)) @ ''</div>\<newline>'' @
                           ''            '' @ html_section @ ''\<newline>'' @
                           ''        </div>\<newline>'' @
                           ''        ''))
               (enumerate 0 (discover [''/'', ''docs''] example_root))) @
             ''</body></html>'' =
       ''\<newline>'' @
       ''    <!DOCTYPE html>\<newline>'' @
       ''    <html>\<newline>'' @
       ''    <head>\<newline>'' @
       ''        <meta charset="UTF-8">\<newline>'' @
       ''        <title>MCP-docs Documentation</title>\<newline>'' @
       ''    </head>\<newline>'' @
       ''    <body>\<newline>'' @
       ''        <h1>MCP-docs Documentation</h1>\<newline>'' @
       ''        <p>Generated from: <code>/docs</code></p>\<newline>'' @
       ''        <p>Total files: 3</p>\<newline>'' @
       ''\<newline>'' @
       ''        <div class="toc">\<newline>'' @
       ''            <h2>Table of Contents</h2>\<newline>'' @
       ''            <ul>\<newline>'' @
       ''    <li style="margin-left: 0px;"><a href="#section-0-amd">a.md</a></li>\<newline>'' @
       ''<li style="margin-left: 0px;"><a href="#section-1-cmd">c.md</a></li>\<newline>'' @
       ''<li style="margin-left: 20px;"><a href="#section-2-subbmd">sub/b.md</a></li>\<newline>'' @
       ''\<newline>'' @
       ''            </ul>\<newline>'' @
       ''        </div>\<newline>'' @
       ''    \<newline>'' @
       ''        <div class="file-section" id="section-0-amd">\<newline>'' @
       ''            <div class="file-path">a.md</div>\<newline>'' @
       ''            <p># Title\<newline>'' @
       ''\<newline>'' @
       ''hello</p>\<newline>'' @
       ''        </div>\<newline>'' @
       ''        \<newline>'' @
       ''        <div class="file-section" id="section-1-cmd">\<newline>'' @
       ''            <div class="file-path">c.md</div>\<newline>'' @
       ''            <p>## X</p>\<newline>'' @
       ''        </div>\<newline>'' @
       ''        </body></html>''\<close>
    by code_simp
  have "case create_pdf_from_repo_os example_bad_cwd example_markdown example_write_pdf
          [''/'', ''w''] Map.empty (Some example_root) [''/'', ''docs''] ''MCP-docs'' of
          Inl e \<Rightarrow> False | Inr r' \<Rightarrow> True"
    by code_simp
  then have o: "\<exists>r'. create_pdf_from_repo_os example_bad_cwd example_markdown example_write_pdf
          [''/'', ''w''] Map.empty (Some example_root) [''/'', ''docs''] ''MCP-docs'' = Inr r'"
    by (simp split: sum.splits)
  from navigation_lists_every_discovered_file [OF d, of example_markdown example_write_pdf
      "[''/'', ''w'']" Map.empty "''MCP-docs''"]
  have \<open>\<exists>r. create_pdf_from_repo example_markdown example_write_pdf [''/'', ''w''] Map.empty
          (Some example_root) [''/'', ''docs''] ''MCP-docs'' = Inr r \<and>
        document r = Some (
       ''\<newline>'' @
       ''    <!DOCTYPE html>\<newline>'' @
       ''    <html>\<newline>'' @
       ''    <head>\<newline>'' @
       ''        <meta charset="UTF-8">\<newline>'' @
       ''        <title>MCP-docs Documentation</title>\<newline>'' @
       ''    </head>\<newline>'' @
       ''    <body>\<newline>'' @
       ''        <h1>MCP-docs Documentation</h1>\<newline>'' @
       ''        <p>Generated from: <code>/docs</code></p>\<newline>'' @
       ''        <p>Total files: 3</p>\<newline>'' @
       ''\<newline>'' @
       ''        <div class="toc">\<newline>'' @
       ''            <h2>Table of Contents</h2>\<newline>'' @
       ''            <ul>\<newline>'' @
       ''    <li style="margin-left: 0px;"><a href="#section-0-amd">a.md</a></li>\<newline>'' @
       ''<li style="margin-left: 0px;"><a href="#section-1-cmd">c.md</a></li>\<newline>'' @
       ''<li style="margin-left: 20px;"><a href="#section-2-subbmd">sub/b.md</a></li>\<newline>'' @
       ''\<newline>'' @
       ''            </ul>\<newline>'' @
       ''        </div>\<newline>'' @
       ''    \<newline>'' @
       ''        <div class="file-section" id="section-0-amd">\<newline>'' @
       ''            <div class="file-path">a.md</div>\<newline>'' @
       ''            <p># Title\<newline>'' @
       ''\<newline>'' @
       ''hello</p>\<newline>'' @
       ''        </div>\<newline>'' @
       ''        \<newline>'' @
       ''        <div class="file-section" id="section-1-cmd">\<newline>'' @
       ''            <div class="file-path">c.md</div>\<newline>'' @
       ''            <p>## X</p>\<newline>'' @
       ''        </div>\<newline>'' @
       ''        </body></html>'') \<and>
        (\<exists>r'. create_pdf_from_repo_os example_bad_cwd example_markdown example_write_pdf
               [''/'', ''w''] Map.empty (Some example_root) [''/'', ''docs''] ''MCP-docs'' = Inr r' \<and>
           document r' = document r)\<close>
    unfolding e using o by blast
  with d m b show ?thesis by (intro conjI)
qed

section \<open>Anchors\<close>

text \<open>
  Claim C2: the anchors of two distinct processed files of a run are distinct, also when
  their relative paths sanitize to the same string. The loop gives the file at position
  \<open>i\<close> of \<open>md_files\<close> the anchor \<open>anchor_of i\<close> of its relative path. Anchors with
  different positions differ whatever the two paths are; so the anchors of the navigation
  items of a run are pairwise distinct, and so are the anchors of the content sections the
  loop has collected when it ends.
\<close>

theorem anchors_pairwise_distinct:
  "(i \<noteq> j \<longrightarrow> anchor_of i p \<noteq> anchor_of j q) \<and>
   distinct (map (\<lambda>x. anchor_of (fst x) (relative repo_path (snd x))) (enumerate k md_files)) \<and>
   (process_files markdown repo_path root (enumerate 0 (discover repo_path root)) st = Inr st' \<and>
    content_sections st = [] \<longrightarrow>
      distinct (map fst (content_sections st')))"
proof (intro conjI impI)
  assume "i \<noteq> j"
  then show "anchor_of i p \<noteq> anchor_of j q"
    using anchor_of_index by blast
next
  show "distinct (map (\<lambda>x. anchor_of (fst x) (relative repo_path (snd x))) (enumerate k md_files))"
    by (rule anchors_enumerate_distinct)
next
  assume a: "process_files markdown repo_path root (enumerate 0 (discover repo_path root)) st =
               Inr st' \<and> content_sections st = []"
  then have "content_sections st' =
     sections_of markdown repo_path root (enumerate 0 (discover repo_path root))"
    by (auto simp: process_files_result [OF enumerate_prefix])
  then show "distinct (map fst (content_sections st'))"
    by (simp add: sections_anchors_distinct distinct_enumerate_fst)
qed

theorem anchors_pairwise_distinct_witness:
  "(0::nat) \<noteq> 1 \<and>
   sanitize_anchor (path_str [''a b.md'']) = sanitize_anchor (path_str [''a-b.md'']) \<and>
   anchor_of 0 [''a b.md''] \<noteq> anchor_of 1 [''a-b.md''] \<and>
   map_sum id (\<lambda>st. map fst (content_sections st))
     (process_files example_markdown [''/'', ''docs''] example_root_mixed
        (enumerate 0 (discover [''/'', ''docs''] example_root_mixed))
        \<lparr>html_content = [], content_sections = [], printed = []\<rparr>) =
     Inr [''section-0-a-bmd'', ''section-1-a-bmd'', ''section-5-oldmdzmd'']"
proof -
  have s: "sanitize_anchor (path_str [''a b.md'']) = sanitize_anchor (path_str [''a-b.md''])"
    by code_simp
  have r: "map_sum id (\<lambda>st. map fst (content_sections st))
     (process_files example_markdown [''/'', ''docs''] example_root_mixed
        (enumerate 0 (discover [''/'', ''docs''] example_root_mixed))
        \<lparr>html_content = [], content_sections = [], printed = []\<rparr>) =
     Inr [''section-0-a-bmd'', ''section-1-a-bmd'', ''section-5-oldmdzmd'']"
    by code_simp
  have "anchor_of 0 [''a b.md''] \<noteq> anchor_of 1 [''a-b.md'']"
    using anchors_pairwise_distinct [of 0 1 "[''a b.md'']" "[''a-b.md'']"] by simp
  with s r show ?thesis by simp
qed

section \<open>Anchor sanitization\<close>

text \<open>
  Claim C3: the result of \<open>sanitize_anchor\<close> contains only word characters, spaces and
  hyphens, with surrounding whitespace trimmed and internal spaces replaced by hyphens. The
  function, whose docstring promises a valid HTML anchor, does not do this for a text with a
  TAB inside: the TAB is whitespace, so the class \<open>[^\w\s-]\<close> keeps it; it is not at an
  end, so \<open>strip\<close> keeps it; it is not U+0020, so \<open>replace\<close> keeps it. The result of the
  text \<open>a TAB b\<close> is the text itself: it holds a character that is neither a word
  character, nor a space, nor a hyphen, an internal whitespace character that no hyphen
  replaced. The anchor of a file named \<open>a TAB b.md\<close>, which the run writes into an
  \<open>id\<close> attribute and into the link of the navigation item, holds the TAB as well, and
  an \<open>id\<close> with whitespace in it is not a valid one.
\<close>

theorem sanitize_anchor_keeps_tab:
  "sanitize_anchor [CHR ''a'', CHR 0x09, CHR ''b''] = [CHR ''a'', CHR 0x09, CHR ''b''] \<and>
   isspace (CHR 0x09) \<and> \<not> is_word (CHR 0x09) \<and> CHR 0x09 \<noteq> CHR '' '' \<and> CHR 0x09 \<noteq> CHR ''-'' \<and>
   anchor_of 0 [[CHR ''a'', CHR 0x09, CHR ''b'', CHR ''.'', CHR ''m'', CHR ''d'']] =
     ''section-0-a'' @ [CHR 0x09] @ ''bmd''"
  by code_simp

section \<open>Discovery returns the regular files that match, sorted by their parts\<close>




section \<open>The two early exits\<close>

text \<open>
  Claim C5, as written: in every run in which the root directory does not exist, or exists
  and holds no matching file, the run logs, skips the artifact generation and completes
  without an unhandled exception. \<open>repo_path.exists()\<close> stands outside any \<open>try\<close> and
  raises every error of \<open>stat\<close> but the few that mean that nothing is there: for a root
  that does not exist because its name is too long, the exception of the first
  \<open>exists()\<close> call leaves the function.
\<close>

theorem missing_root_raises_counterexample:
  "create_pdf_from_repo_os example_long_name example_markdown example_write_pdf [''/'', ''w'']
     Map.empty None [''/'', ''docs''] ''MCP-docs'' = Inl (OSError ''File name too long'')"
  by (simp add: create_pdf_from_repo_os_def example_long_name_def no_faults_def exists_os_def
      encodable_def list_all_iff)

text \<open>
  Claim C5, amended: in every run in which the existence test answers, and either answers
  that the root directory does not exist, or the root exists, holds no matching file, and
  every entry below it can be examined and the path of every regular file below it can be
  printed, the run logs, returns without an exception, and skips the artifact generation:
  no composite document is assembled and, whatever the renderer would do, the files of the
  working directory are the ones the run started with. (The root path itself is taken to
  be printable.) The diagnostic listing names the regular files in the order \<open>rglob\<close>
  meets them.
\<close>

theorem missing_root_or_no_matches_aborts:
  assumes "root_error fl = None"
    and "encodable fl (absolute cwd repo_path)" and "encodable fl repo_path"
    and "root_opt = None \<or>
         (\<exists>root. root_opt = Some root \<and> discover repo_path root = [] \<and>
            (\<forall>p\<in>set (rglob_all repo_path root).
               stat_error fl p = None \<and>
               (is_file repo_path root p \<longrightarrow> encodable fl (drop (length repo_path) p))))"
  shows "create_pdf_from_repo_os fl markdown write_pdf cwd store root_opt repo_path
           output_name =
     Inr \<lparr>console =
            (case root_opt of
               None \<Rightarrow>
                 [Searching (absolute cwd repo_path), DirectoryExists False,
                  NoDirectory repo_path]
             | Some root \<Rightarrow>
                 [Searching (absolute cwd repo_path), DirectoryExists True, Found 0,
                  NoMarkdown repo_path, FilesInDirectory] @
                 map (\<lambda>f. Listed (drop (length repo_path) f))
                   (filter (is_file repo_path root) (rglob_all repo_path root))),
          document = None, files = store\<rparr>"
proof (cases root_opt)
  case None
  show ?thesis
    unfolding None run_os_missing_root [OF assms(1-3)] by (simp add: run_missing_root)
next
  case (Some root)
  with assms(4) have d: "discover repo_path root = []"
    and e: "\<forall>p\<in>set (rglob_all repo_path root). stat_error fl p = None \<and>
              (is_file repo_path root p \<longrightarrow> encodable fl (relative repo_path p))"
    by (simp_all add: relative_def)
  show ?thesis
    unfolding Some run_os_no_matches [OF assms(1-3) e d]
    by (simp add: run_no_matches [OF d] relative_def [abs_def])
qed

theorem missing_root_or_no_matches_aborts_witness:
  "root_error example_bad_name = None \<and>
   encodable example_bad_name (absolute [''/'', ''w''] [''/'', ''docs'']) \<and>
   encodable example_bad_name [''/'', ''docs''] \<and>
   create_pdf_from_repo_os example_bad_name example_markdown example_write_pdf [''/'', ''w'']
     Map.empty None [''/'', ''docs''] ''MCP-docs'' =
     Inr \<lparr>console = [Searching [''/'', ''docs''], DirectoryExists False,
                     NoDirectory [''/'', ''docs'']],
          document = None, files = Map.empty\<rparr> \<and>
   discover [''/'', ''docs''] example_root_plain = [] \<and>
   list_all (\<lambda>p. stat_error example_bad_name p = None \<and>
               (is_file [''/'', ''docs''] example_root_plain p \<longrightarrow>
                encodable example_bad_name (drop (length [''/'', ''docs'']) p)))
     (rglob_all [''/'', ''docs''] example_root_plain) \<and>
   create_pdf_from_repo_os example_bad_name example_markdown example_write_pdf [''/'', ''w'']
     Map.empty (Some example_root_plain) [''/'', ''docs''] ''MCP-docs'' =
     Inr \<lparr>console = [Searching [''/'', ''docs''], DirectoryExists True, Found 0,
                     NoMarkdown [''/'', ''docs''], FilesInDirectory, Listed [''notes.txt''],
                     Listed [''m.txt''], Listed [''b'', ''y.txt'']],
          document = None, files = Map.empty\<rparr>"
proof -
  let ?rp = "[''/'', ''docs'']"
  have r: "root_error example_bad_name = None" by code_simp
  have ea: "encodable example_bad_name (absolute [''/'', ''w''] ?rp)" by code_simp
  have er: "encodable example_bad_name ?rp" by code_simp
  have a: "absolute [''/'', ''w''] ?rp = ?rp" by code_simp
  have d: "discover ?rp example_root_plain = []" by code_simp
  have s: "list_all (\<lambda>p. stat_error example_bad_name p = None \<and>
               (is_file ?rp example_root_plain p \<longrightarrow>
                encodable example_bad_name (drop (length ?rp) p)))
     (rglob_all ?rp example_root_plain)"
    by code_simp
  have l: "map (\<lambda>f. Listed (drop (length ?rp) f))
             (filter (is_file ?rp example_root_plain) (rglob_all ?rp example_root_plain)) =
           [Listed [''notes.txt''], Listed [''m.txt''], Listed [''b'', ''y.txt'']]"
    by code_simp
  note t = missing_root_or_no_matches_aborts [OF r ea er, where markdown = example_markdown
      and write_pdf = example_write_pdf and store = Map.empty and output_name = "''MCP-docs''"]
  have 1: "create_pdf_from_repo_os example_bad_name example_markdown example_write_pdf
     [''/'', ''w''] Map.empty None ?rp ''MCP-docs'' =
     Inr \<lparr>console = [Searching [''/'', ''docs''], DirectoryExists False,
                     NoDirectory [''/'', ''docs'']],
          document = None, files = Map.empty\<rparr>"
  proof -
    have h: "None = None \<or>
         (\<exists>root. None = Some root \<and> discover ?rp root = [] \<and>
            (\<forall>p\<in>set (rglob_all ?rp root).
               stat_error example_bad_name p = None \<and>
               (is_file ?rp root p \<longrightarrow> encodable example_bad_name (drop (length ?rp) p))))"
      by simp
    from t [OF h] show ?thesis by (simp only: option.case a)
  qed
  have 2: "create_pdf_from_repo_os example_bad_name example_markdown example_write_pdf
     [''/'', ''w''] Map.empty (Some example_root_plain) ?rp ''MCP-docs'' =
     Inr \<lparr>console = [Searching [''/'', ''docs''], DirectoryExists True, Found 0,
                     NoMarkdown [''/'', ''docs''], FilesInDirectory, Listed [''notes.txt''],
                     Listed [''m.txt''], Listed [''b'', ''y.txt'']],
          document = None, files = Map.empty\<rparr>"
  proof -
    have h: "Some example_root_plain = None \<or>
         (\<exists>root. Some example_root_plain = Some root \<and> discover ?rp root = [] \<and>
            (\<forall>p\<in>set (rglob_all ?rp root).
               stat_error example_bad_name p = None \<and>
               (is_file ?rp root p \<longrightarrow> encodable example_bad_name (drop (length ?rp) p))))"
      using d s [unfolded list_all_iff] by simp
    from t [OF h] show ?thesis by (simp only: option.case a l append.simps)
  qed
  from r ea er 1 d s 2 show ?thesis by (intro conjI)
qed

section \<open>Files that are skipped\<close>

text \<open>
  Claim C6, as written: a discovered file that is blank after trimming is reported and
  skipped and the run goes on; read or decode failures likewise log an error and skip the
  file; and no such file aborts the run. Two things differ in the program. The file is
  opened with \<open>errors='ignore'\<close>, so a byte that cannot be decoded is dropped without any
  line on the console, and the file is converted from the text that remains: \<open>latin1.md\<close>
  below, with such a byte between \<open>h\<close> and \<open>i\<close>, gets its section. And the warning and
  the error line interpolate the path of the file: for the blank file \<open>caf.md\<close>, whose
  name cannot be printed, the \<open>print\<close> of the warning raises inside the \<open>try\<close>, the
  \<open>print\<close> of the \<open>except\<close> clause raises again, and the exception leaves the loop with
  \<open>latin1.md\<close> still to come; the run of that directory ends with the exception.
\<close>

theorem skipped_file_aborts_counterexample:
  \<open>read_file [''/'', ''docs''] example_root_encoding [''/'', ''docs'', ''latin1.md''] =
     Inr ''hi'' \<and>
   process_files_os example_bad_name example_markdown [''/'', ''docs''] example_root_encoding
     [(3, [''/'', ''docs'', ''latin1.md''])]
     \<lparr>html_content = [], content_sections = [], printed = []\<rparr> =
     Inr \<lparr>html_content =
            ''<li style="margin-left: 0px;"><a href="#section-3-latin1md">latin1.md</a></li>\<newline>'',
          content_sections = [(''section-3-latin1md'', [''latin1.md''], ''<p>hi</p>'')],
          printed = []\<rparr> \<and>
   read_file [''/'', ''docs''] example_root_encoding [''/'', ''docs'', ''caf.md''] = Inr '''' \<and>
   unencodable example_bad_name ''caf.md'' \<and>
   process_files_os example_bad_name example_markdown [''/'', ''docs''] example_root_encoding
     [(2, [''/'', ''docs'', ''caf.md'']), (3, [''/'', ''docs'', ''latin1.md''])]
     \<lparr>html_content = [], content_sections = [], printed = []\<rparr> =
     Inl UnicodeEncodeError \<and>
   map_sum id console
     (create_pdf_from_repo_os example_bad_name example_markdown example_write_pdf
        [''/'', ''w''] Map.empty (Some example_root_encoding) [''/'', ''docs''] ''MCP-docs'') =
     Inl UnicodeEncodeError\<close>
  by code_simp

text \<open>
  Claim C6, amended: for every discovered file whose path can be printed, a content that is
  blank after trimming is reported by a warning, the file is skipped and the loop goes on
  with the remaining files; a file that cannot be opened or read, or that the converter
  fails on, is reported by an error line and skipped in the same way. A byte that is not
  valid UTF-8 is dropped by the decoder without a line on the console, and the file is
  treated by the text that remains. When the paths of all discovered files can be printed,
  the loop ends normally, and so does the run when also the existence test and the
  \<open>is_file\<close> tests answer.
\<close>

theorem skipped_file_does_not_abort:
  "(f \<in> set (discover repo_path root) \<and> encodable fl f \<and>
    read_file repo_path root f = Inr c \<and> strip c = [] \<longrightarrow>
      process_files_os fl markdown repo_path root ((i, f) # rest) st =
      process_files_os fl markdown repo_path root rest
        (st\<lparr>html_content := html_content st @
              toc_item (anchor_of i (drop (length repo_path) f)) (drop (length repo_path) f),
            printed := printed st @ [EmptyFile (drop (length repo_path) f)]\<rparr>)) \<and>
   (f \<in> set (discover repo_path root) \<and> encodable fl f \<and>
    read_file repo_path root f = Inl e \<longrightarrow>
      process_files_os fl markdown repo_path root ((i, f) # rest) st =
      process_files_os fl markdown repo_path root rest
        (st\<lparr>html_content := html_content st @
              toc_item (anchor_of i (drop (length repo_path) f)) (drop (length repo_path) f),
            printed := printed st @ [ErrorProcessing f e]\<rparr>)) \<and>
   (f \<in> set (discover repo_path root) \<and> encodable fl f \<and>
    read_file repo_path root f = Inr c \<and> strip c \<noteq> [] \<and> markdown c = Inl e \<longrightarrow>
      process_files_os fl markdown repo_path root ((i, f) # rest) st =
      process_files_os fl markdown repo_path root rest
        (st\<lparr>html_content := html_content st @
              toc_item (anchor_of i (drop (length repo_path) f)) (drop (length repo_path) f),
            printed := printed st @ [ErrorProcessing f e]\<rparr>)) \<and>
   (f \<in> set (discover repo_path root) \<and>
    read_file repo_path root f = Inr c \<and> strip c \<noteq> [] \<and> markdown c = Inr h \<longrightarrow>
      process_files_os fl markdown repo_path root ((i, f) # rest) st =
      process_files_os fl markdown repo_path root rest
        (st\<lparr>html_content := html_content st @
              toc_item (anchor_of i (drop (length repo_path) f)) (drop (length repo_path) f),
            content_sections := content_sections st @
              [(anchor_of i (drop (length repo_path) f), drop (length repo_path) f, h)]\<rparr>)) \<and>
   (node_at repo_path root f = Some (File (Inr units)) \<longrightarrow>
      read_file repo_path root f = Inr (map the (filter (\<lambda>u. u \<noteq> None) units))) \<and>
   ((\<forall>g\<in>set (discover repo_path root). encodable fl g) \<longrightarrow>
      (\<exists>st'. process_files_os fl markdown repo_path root
               (enumerate 0 (discover repo_path root)) st = Inr st')) \<and>
   (root_error fl = None \<and> encodable fl (absolute cwd repo_path) \<and>
    (\<forall>p\<in>set (rglob_md repo_path root). stat_error fl p = None) \<and>
    (\<forall>g\<in>set (discover repo_path root). encodable fl g) \<and> discover repo_path root \<noteq> [] \<longrightarrow>
      (\<exists>r. create_pdf_from_repo_os fl markdown write_pdf cwd store (Some root) repo_path
             output_name = Inr r))"
proof (intro conjI impI)
  assume a: "f \<in> set (discover repo_path root) \<and> encodable fl f \<and>
             read_file repo_path root f = Inr c \<and> strip c = []"
  then have "prefix repo_path f" by (blast dest: discover_prefix)
  moreover have "encodable fl (drop (length repo_path) f)"
    using a encodable_relative [of fl f repo_path] by (simp add: relative_def)
  ultimately show "process_files_os fl markdown repo_path root ((i, f) # rest) st =
      process_files_os fl markdown repo_path root rest
        (st\<lparr>html_content := html_content st @
              toc_item (anchor_of i (drop (length repo_path) f)) (drop (length repo_path) f),
            printed := printed st @ [EmptyFile (drop (length repo_path) f)]\<rparr>)"
    using a by (simp add: process_file_os_def relative_to_def Let_def)
next
  assume a: "f \<in> set (discover repo_path root) \<and> encodable fl f \<and>
             read_file repo_path root f = Inl e"
  then have "prefix repo_path f" by (blast dest: discover_prefix)
  then show "process_files_os fl markdown repo_path root ((i, f) # rest) st =
      process_files_os fl markdown repo_path root rest
        (st\<lparr>html_content := html_content st @
              toc_item (anchor_of i (drop (length repo_path) f)) (drop (length repo_path) f),
            printed := printed st @ [ErrorProcessing f e]\<rparr>)"
    using a by (simp add: process_file_os_def relative_to_def except_clause_def Let_def)
next
  assume a: "f \<in> set (discover repo_path root) \<and> encodable fl f \<and>
             read_file repo_path root f = Inr c \<and> strip c \<noteq> [] \<and> markdown c = Inl e"
  then have "prefix repo_path f" by (blast dest: discover_prefix)
  then show "process_files_os fl markdown repo_path root ((i, f) # rest) st =
      process_files_os fl markdown repo_path root rest
        (st\<lparr>html_content := html_content st @
              toc_item (anchor_of i (drop (length repo_path) f)) (drop (length repo_path) f),
            printed := printed st @ [ErrorProcessing f e]\<rparr>)"
    using a by (simp add: process_file_os_def relative_to_def except_clause_def Let_def)
next
  assume a: "f \<in> set (discover repo_path root) \<and>
             read_file repo_path root f = Inr c \<and> strip c \<noteq> [] \<and> markdown c = Inr h"
  then have "prefix repo_path f" by (blast dest: discover_prefix)
  then show "process_files_os fl markdown repo_path root ((i, f) # rest) st =
      process_files_os fl markdown repo_path root rest
        (st\<lparr>html_content := html_content st @
              toc_item (anchor_of i (drop (length repo_path) f)) (drop (length repo_path) f),
            content_sections := content_sections st @
              [(anchor_of i (drop (length repo_path) f), drop (length repo_path) f, h)]\<rparr>)"
    using a by (simp add: process_file_os_def relative_to_def Let_def)
next
  assume "node_at repo_path root f = Some (File (Inr units))"
  moreover have "decode_ignore units = map the (filter (\<lambda>u. u \<noteq> None) units)"
    by (induction units) (auto simp: decode_ignore_def)
  ultimately show "read_file repo_path root f = Inr (map the (filter (\<lambda>u. u \<noteq> None) units))"
    by (simp add: read_file_def)
next
  assume a: "\<forall>g\<in>set (discover repo_path root). encodable fl g"
  have "process_files_os fl markdown repo_path root (enumerate 0 (discover repo_path root)) st =
        process_files markdown repo_path root (enumerate 0 (discover repo_path root)) st"
  proof (rule process_files_os_plain, rule ballI)
    fix x assume "x \<in> set (enumerate 0 (discover repo_path root))"
    then have "snd x \<in> set (discover repo_path root)"
      by (metis enumerate_eq_zip in_set_zipE prod.collapse)
    with a discover_prefix
    show "prefix repo_path (snd x) \<and>
          (encodable fl (snd x) \<or> converted markdown repo_path root (snd x))"
      by blast
  qed
  then show "\<exists>st'. process_files_os fl markdown repo_path root
               (enumerate 0 (discover repo_path root)) st = Inr st'"
    by (simp add: process_files_result [OF enumerate_prefix])
next
  assume a: "root_error fl = None \<and> encodable fl (absolute cwd repo_path) \<and>
    (\<forall>p\<in>set (rglob_md repo_path root). stat_error fl p = None) \<and>
    (\<forall>g\<in>set (discover repo_path root). encodable fl g) \<and> discover repo_path root \<noteq> []"
  then show "\<exists>r. create_pdf_from_repo_os fl markdown write_pdf cwd store (Some root) repo_path
             output_name = Inr r"
    using run_os_assembled [of fl cwd repo_path root markdown write_pdf store output_name]
    by simp
qed

theorem skipped_file_does_not_abort_witness:
  \<open>[''/'', ''docs'', ''blank.md''] \<in> set (discover [''/'', ''docs''] example_root_encoding) \<and>
   encodable example_bad_name [''/'', ''docs'', ''blank.md''] \<and>
   read_file [''/'', ''docs''] example_root_encoding [''/'', ''docs'', ''blank.md''] =
     Inr ''  \<newline>'' \<and>
   strip ''  \<newline>'' = [] \<and>
   process_files_os example_bad_name example_markdown [''/'', ''docs''] example_root_encoding
     [(1, [''/'', ''docs'', ''blank.md''])]
     \<lparr>html_content = [], content_sections = [], printed = []\<rparr> =
     Inr \<lparr>html_content =
            ''<li style="margin-left: 0px;"><a href="#section-1-blankmd">blank.md</a></li>\<newline>'',
          content_sections = [], printed = [EmptyFile [''blank.md'']]\<rparr> \<and>
   [''/'', ''docs'', ''locked.md''] \<in> set (discover [''/'', ''docs''] example_root_encoding) \<and>
   encodable example_bad_name [''/'', ''docs'', ''locked.md''] \<and>
   read_file [''/'', ''docs''] example_root_encoding [''/'', ''docs'', ''locked.md''] =
     Inl ''Permission denied'' \<and>
   process_files_os example_bad_name example_markdown [''/'', ''docs''] example_root_encoding
     [(4, [''/'', ''docs'', ''locked.md''])]
     \<lparr>html_content = [], content_sections = [], printed = []\<rparr> =
     Inr \<lparr>html_content =
            ''<li style="margin-left: 0px;"><a href="#section-4-lockedmd">locked.md</a></li>\<newline>'',
          content_sections = [],
          printed = [ErrorProcessing [''/'', ''docs'', ''locked.md''] ''Permission denied'']\<rparr> \<and>
   [''/'', ''docs'', ''bad.md''] \<in> set (discover [''/'', ''docs''] example_root_encoding) \<and>
   encodable example_bad_name [''/'', ''docs'', ''bad.md''] \<and>
   read_file [''/'', ''docs''] example_root_encoding [''/'', ''docs'', ''bad.md''] = Inr ''!'' \<and>
   strip ''!'' \<noteq> [] \<and> example_markdown ''!'' = Inl ''conversion failed'' \<and>
   process_files_os example_bad_name example_markdown [''/'', ''docs''] example_root_encoding
     [(0, [''/'', ''docs'', ''bad.md''])]
     \<lparr>html_content = [], content_sections = [], printed = []\<rparr> =
     Inr \<lparr>html_content =
            ''<li style="margin-left: 0px;"><a href="#section-0-badmd">bad.md</a></li>\<newline>'',
          content_sections = [],
          printed = [ErrorProcessing [''/'', ''docs'', ''bad.md''] ''conversion failed'']\<rparr> \<and>
   node_at [''/'', ''docs''] example_root_encoding [''/'', ''docs'', ''latin1.md''] =
     Some (File (Inr [Some CHR ''h'', None, Some CHR ''i''])) \<and>
   read_file [''/'', ''docs''] example_root_encoding [''/'', ''docs'', ''latin1.md''] =
     Inr ''hi'' \<and>
   [''/'', ''docs'', ''latin1.md''] \<in> set (discover [''/'', ''docs''] example_root_encoding) \<and>
   strip ''hi'' \<noteq> [] \<and> example_markdown ''hi'' = Inr ''<p>hi</p>'' \<and>
   process_files_os example_bad_name example_markdown [''/'', ''docs''] example_root_encoding
     [(3, [''/'', ''docs'', ''latin1.md''])]
     \<lparr>html_content = [], content_sections = [], printed = []\<rparr> =
     Inr \<lparr>html_content =
            ''<li style="margin-left: 0px;"><a href="#section-3-latin1md">latin1.md</a></li>\<newline>'',
          content_sections = [(''section-3-latin1md'', [''latin1.md''], ''<p>hi</p>'')],
          printed = []\<rparr> \<and>
   root_error example_bad_name = None \<and>
   encodable example_bad_name (absolute [''/'', ''w''] [''/'', ''docs'']) \<and>
   list_all (\<lambda>p. stat_error example_bad_name p = None)
     (rglob_md [''/'', ''docs''] example_root_mixed) \<and>
   list_all (encodable example_bad_name) (discover [''/'', ''docs''] example_root_mixed) \<and>
   discover [''/'', ''docs''] example_root_mixed \<noteq> [] \<and>
   map_sum id console
     (create_pdf_from_repo_os example_bad_name example_markdown example_write_pdf
        [''/'', ''w''] Map.empty (Some example_root_mixed) [''/'', ''docs''] ''MCP-docs'') =
     Inr [Searching [''/'', ''docs''], DirectoryExists True, Found 6,
          Listed [''a b.md''], Listed [''a-b.md''], Listed [''bad.md''], Listed [''empty.md''],
          Listed [''locked.md''], Listed [''old.md'', ''z.md''],
          ErrorProcessing [''/'', ''docs'', ''bad.md''] ''conversion failed'',
          EmptyFile [''empty.md''],
          ErrorProcessing [''/'', ''docs'', ''locked.md''] ''Permission denied'',
          GeneratingPDF ''MCP-docs.pdf'', Generated ''MCP-docs.pdf'' 1326]\<close>
proof -
  let ?rp = "[''/'', ''docs'']"
  let ?st = "\<lparr>html_content = [], content_sections = [], printed = []\<rparr>"
  note t = skipped_file_does_not_abort [where repo_path = ?rp and fl = example_bad_name
      and markdown = example_markdown and rest = "[]" and st = ?st]
  have e1: "[''/'', ''docs'', ''blank.md''] \<in> set (discover ?rp example_root_encoding)"
    by code_simp
  have e2: "encodable example_bad_name [''/'', ''docs'', ''blank.md'']" by code_simp
  have e3: "read_file ?rp example_root_encoding [''/'', ''docs'', ''blank.md''] =
              Inr ''  \<newline>''"
    by code_simp
  have e4: "strip ''  \<newline>'' = []" by code_simp
  have e: \<open>process_files_os example_bad_name example_markdown ?rp example_root_encoding
     [(1, [''/'', ''docs'', ''blank.md''])] ?st =
     Inr \<lparr>html_content =
            ''<li style="margin-left: 0px;"><a href="#section-1-blankmd">blank.md</a></li>\<newline>'',
          content_sections = [],
          printed = [EmptyFile [''blank.md'']]\<rparr>\<close>
    (is "_ = ?res")
  proof -
    from t [where root = example_root_encoding and f = "[''/'', ''docs'', ''blank.md'']"
        and c = "''  \<newline>''" and i = 1] e1 e2 e3 e4
    have "process_files_os example_bad_name example_markdown ?rp example_root_encoding
       [(1, [''/'', ''docs'', ''blank.md''])] ?st =
       process_files_os example_bad_name example_markdown ?rp example_root_encoding []
        (?st\<lparr>html_content := html_content ?st @
              toc_item (anchor_of 1 (drop (length ?rp) [''/'', ''docs'', ''blank.md'']))
                (drop (length ?rp) [''/'', ''docs'', ''blank.md'']),
            printed := printed ?st @ [EmptyFile (drop (length ?rp) [''/'', ''docs'', ''blank.md''])]\<rparr>)"
      by blast
    also have "\<dots> = ?res" by code_simp
    finally show ?thesis .
  qed
  have l1: "[''/'', ''docs'', ''locked.md''] \<in> set (discover ?rp example_root_encoding)"
    by code_simp
  have l2: "encodable example_bad_name [''/'', ''docs'', ''locked.md'']" by code_simp
  have l3: "read_file ?rp example_root_encoding [''/'', ''docs'', ''locked.md''] =
     Inl ''Permission denied''"
    by code_simp
  have l: \<open>process_files_os example_bad_name example_markdown ?rp example_root_encoding
     [(4, [''/'', ''docs'', ''locked.md''])] ?st =
     Inr \<lparr>html_content =
            ''<li style="margin-left: 0px;"><a href="#section-4-lockedmd">locked.md</a></li>\<newline>'',
          content_sections = [],
          printed = [ErrorProcessing [''/'', ''docs'', ''locked.md''] ''Permission denied'']\<rparr>\<close>
    (is "_ = ?res")
  proof -
    from t [where root = example_root_encoding and f = "[''/'', ''docs'', ''locked.md'']"
        and e = "''Permission denied''" and i = 4] l1 l2 l3
    have "process_files_os example_bad_name example_markdown ?rp example_root_encoding
       [(4, [''/'', ''docs'', ''locked.md''])] ?st =
       process_files_os example_bad_name example_markdown ?rp example_root_encoding []
        (?st\<lparr>html_content := html_content ?st @
              toc_item (anchor_of 4 (drop (length ?rp) [''/'', ''docs'', ''locked.md'']))
                (drop (length ?rp) [''/'', ''docs'', ''locked.md'']),
            printed := printed ?st @ [ErrorProcessing [''/'', ''docs'', ''locked.md''] ''Permission denied'']\<rparr>)"
      by blast
    also have "\<dots> = ?res" by code_simp
    finally show ?thesis .
  qed
  have b1: "[''/'', ''docs'', ''bad.md''] \<in> set (discover ?rp example_root_encoding)"
    by code_simp
  have b2: "encodable example_bad_name [''/'', ''docs'', ''bad.md'']" by code_simp
  have b3: "read_file ?rp example_root_encoding [''/'', ''docs'', ''bad.md''] = Inr ''!''"
    by code_simp
  have b4: "strip ''!'' \<noteq> []" by code_simp
  have b5: "example_markdown ''!'' = Inl ''conversion failed''" by code_simp
  have b: \<open>process_files_os example_bad_name example_markdown ?rp example_root_encoding
     [(0, [''/'', ''docs'', ''bad.md''])] ?st =
     Inr \<lparr>html_content =
            ''<li style="margin-left: 0px;"><a href="#section-0-badmd">bad.md</a></li>\<newline>'',
          content_sections = [],
          printed = [ErrorProcessing [''/'', ''docs'', ''bad.md''] ''conversion failed'']\<rparr>\<close>
    (is "_ = ?res")
  proof -
    from t [where root = example_root_encoding and f = "[''/'', ''docs'', ''bad.md'']"
        and c = "''!''" and e = "''conversion failed''" and i = 0] b1 b2 b3 b4 b5
    have "process_files_os example_bad_name example_markdown ?rp example_root_encoding
       [(0, [''/'', ''docs'', ''bad.md''])] ?st =
       process_files_os example_bad_name example_markdown ?rp example_root_encoding []
        (?st\<lparr>html_content := html_content ?st @
              toc_item (anchor_of 0 (drop (length ?rp) [''/'', ''docs'', ''bad.md'']))
                (drop (length ?rp) [''/'', ''docs'', ''bad.md'']),
            printed := printed ?st @ [ErrorProcessing [''/'', ''docs'', ''bad.md''] ''conversion failed'']\<rparr>)"
      by blast
    also have "\<dots> = ?res" by code_simp
    finally show ?thesis .
  qed
  have n1: "node_at ?rp example_root_encoding [''/'', ''docs'', ''latin1.md''] =
     Some (File (Inr [Some CHR ''h'', None, Some CHR ''i'']))"
    by code_simp
  have n2: "read_file ?rp example_root_encoding [''/'', ''docs'', ''latin1.md''] = Inr ''hi''"
    using t [where root = example_root_encoding and f = "[''/'', ''docs'', ''latin1.md'']"
        and units = "[Some CHR ''h'', None, Some CHR ''i'']"] n1
    by simp
  have c1: "[''/'', ''docs'', ''latin1.md''] \<in> set (discover ?rp example_root_encoding)"
    by code_simp
  have c3: "strip ''hi'' \<noteq> []" by code_simp
  have c4: "example_markdown ''hi'' = Inr ''<p>hi</p>''" by code_simp
  have c: \<open>process_files_os example_bad_name example_markdown ?rp example_root_encoding
     [(3, [''/'', ''docs'', ''latin1.md''])] ?st =
     Inr \<lparr>html_content =
            ''<li style="margin-left: 0px;"><a href="#section-3-latin1md">latin1.md</a></li>\<newline>'',
          content_sections = [(''section-3-latin1md'', [''latin1.md''], ''<p>hi</p>'')],
          printed = []\<rparr>\<close>
    (is "_ = ?res")
  proof -
    from t [where root = example_root_encoding and f = "[''/'', ''docs'', ''latin1.md'']"
        and c = "''hi''" and h = "''<p>hi</p>''" and i = 3] c1 n2 c3 c4
    have "process_files_os example_bad_name example_markdown ?rp example_root_encoding
       [(3, [''/'', ''docs'', ''latin1.md''])] ?st =
       process_files_os example_bad_name example_markdown ?rp example_root_encoding []
        (?st\<lparr>html_content := html_content ?st @
              toc_item (anchor_of 3 (drop (length ?rp) [''/'', ''docs'', ''latin1.md'']))
                (drop (length ?rp) [''/'', ''docs'', ''latin1.md'']),
            content_sections := content_sections ?st @
              [(anchor_of 3 (drop (length ?rp) [''/'', ''docs'', ''latin1.md'']),
                drop (length ?rp) [''/'', ''docs'', ''latin1.md''], ''<p>hi</p>'')]\<rparr>)"
      by blast
    also have "\<dots> = ?res" by code_simp
    finally show ?thesis .
  qed
  have r1: "root_error example_bad_name = None" by code_simp
  have r2: "encodable example_bad_name (absolute [''/'', ''w''] ?rp)" by code_simp
  have r3: "list_all (\<lambda>p. stat_error example_bad_name p = None)
     (rglob_md ?rp example_root_mixed)"
    by code_simp
  have r4: "list_all (encodable example_bad_name) (discover ?rp example_root_mixed)"
    by code_simp
  have r5: "discover ?rp example_root_mixed \<noteq> []" by code_simp
  have r: "map_sum id console
     (create_pdf_from_repo_os example_bad_name example_markdown example_write_pdf
        [''/'', ''w''] Map.empty (Some example_root_mixed) ?rp ''MCP-docs'') =
     Inr [Searching [''/'', ''docs''], DirectoryExists True, Found 6,
          Listed [''a b.md''], Listed [''a-b.md''], Listed [''bad.md''], Listed [''empty.md''],
          Listed [''locked.md''], Listed [''old.md'', ''z.md''],
          ErrorProcessing [''/'', ''docs'', ''bad.md''] ''conversion failed'',
          EmptyFile [''empty.md''],
          ErrorProcessing [''/'', ''docs'', ''locked.md''] ''Permission denied'',
          GeneratingPDF ''MCP-docs.pdf'', Generated ''MCP-docs.pdf'' 1326]"
    by code_simp
  from e1 e2 e3 e4 e l1 l2 l3 l b1 b2 b3 b4 b5 b n1 n2 c1 c3 c4 c r1 r2 r3 r4 r5 r
  show ?thesis by (intro conjI)
qed

section \<open>A renderer that raises\<close>

text \<open>
  Claim C7: when a run reaches the rendering step and the rendering engine raises, the
  exception is caught and logged, and the function returns instead of letting it escape.
  The console ends with the line that announces the artifact and the line that reports the
  error; the files of the working directory are what the renderer left.
\<close>

theorem render_error_is_caught:
  assumes "discover repo_path root \<noteq> []"
    and "write_pdf (composite markdown cwd root repo_path output_name) (output_name @ ''.pdf'')
           store = (Some e, store')"
  shows "create_pdf_from_repo markdown write_pdf cwd store (Some root) repo_path output_name =
     Inr \<lparr>console =
            [Searching (absolute cwd repo_path), DirectoryExists True] @
            found_lines repo_path (discover repo_path root) @
            skip_lines markdown repo_path root (enumerate 0 (discover repo_path root)) @
            [GeneratingPDF (output_name @ ''.pdf''), ErrorGenerating e],
          document = Some (composite markdown cwd root repo_path output_name),
          files = store'\<rparr>"
  using assms(2) by (simp add: run_assembled [OF assms(1)] generate_pdf_def)

theorem render_error_is_caught_witness:
  "discover [''/'', ''docs''] example_root \<noteq> [] \<and>
   failing_write_pdf (composite example_markdown [''/'', ''w''] example_root [''/'', ''docs'']
      ''MCP-docs'') (''MCP-docs'' @ ''.pdf'') Map.empty = (Some ''render error'', Map.empty) \<and>
   map_sum id console
     (create_pdf_from_repo example_markdown failing_write_pdf [''/'', ''w''] Map.empty
        (Some example_root) [''/'', ''docs''] ''MCP-docs'') =
     Inr [Searching [''/'', ''docs''], DirectoryExists True, Found 3, Listed [''a.md''],
          Listed [''c.md''], Listed [''sub'', ''b.md''], EmptyFile [''sub'', ''b.md''],
          GeneratingPDF ''MCP-docs.pdf'', ErrorGenerating ''render error'']"
proof -
  have d: "discover [''/'', ''docs''] example_root \<noteq> []" by code_simp
  have w: "failing_write_pdf (composite example_markdown [''/'', ''w''] example_root
      [''/'', ''docs''] ''MCP-docs'') (''MCP-docs'' @ ''.pdf'') Map.empty =
      (Some ''render error'', Map.empty)"
    by (simp add: failing_write_pdf_def)
  have l: "[Searching (absolute [''/'', ''w''] [''/'', ''docs'']), DirectoryExists True] @
        found_lines [''/'', ''docs''] (discover [''/'', ''docs''] example_root) @
        skip_lines example_markdown [''/'', ''docs''] example_root
          (enumerate 0 (discover [''/'', ''docs''] example_root)) @
        [GeneratingPDF (''MCP-docs'' @ ''.pdf''), ErrorGenerating ''render error''] =
        [Searching [''/'', ''docs''], DirectoryExists True, Found 3, Listed [''a.md''],
          Listed [''c.md''], Listed [''sub'', ''b.md''], EmptyFile [''sub'', ''b.md''],
          GeneratingPDF ''MCP-docs.pdf'', ErrorGenerating ''render error'']"
    by code_simp
  have "map_sum id console
     (create_pdf_from_repo example_markdown failing_write_pdf [''/'', ''w''] Map.empty
        (Some example_root) [''/'', ''docs''] ''MCP-docs'') =
     Inr ([Searching (absolute [''/'', ''w''] [''/'', ''docs'']), DirectoryExists True] @
        found_lines [''/'', ''docs''] (discover [''/'', ''docs''] example_root) @
        skip_lines example_markdown [''/'', ''docs''] example_root
          (enumerate 0 (discover [''/'', ''docs''] example_root)) @
        [GeneratingPDF (''MCP-docs'' @ ''.pdf''), ErrorGenerating ''render error''])"
    by (simp add: render_error_is_caught [where write_pdf = failing_write_pdf
          and markdown = example_markdown and cwd = "[''/'', ''w'']" and store = Map.empty
          and store' = Map.empty and e = "''render error''", OF d w])
  then have "map_sum id console
     (create_pdf_from_repo example_markdown failing_write_pdf [''/'', ''w''] Map.empty
        (Some example_root) [''/'', ''docs''] ''MCP-docs'') =
     Inr [Searching [''/'', ''docs''], DirectoryExists True, Found 3, Listed [''a.md''],
          Listed [''c.md''], Listed [''sub'', ''b.md''], EmptyFile [''sub'', ''b.md''],
          GeneratingPDF ''MCP-docs.pdf'', ErrorGenerating ''render error'']"
    unfolding l .
  with d w show ?thesis by (intro conjI)
qed

section \<open>The order of the composite document\<close>

text \<open>
  Claim C8: the composite document is the header, then the navigation items, then the body
  sections; the navigation items follow the discovery order, which is the sorted order of
  the paths; the body sections are the converted files in that same order, each under the
  anchor of its navigation item; and no file occurs twice, in the navigation list or in the
  body. The document is written out below: the header, one \<open>li\<close> item for every pair of
  \<open>enumerate(md_files)\<close>, the end of the list, then for every pair again, in the same
  order, its \<open>file-section\<close> block when the file was read, is not blank and was converted,
  and the closing tags; \<open>md_files\<close> is sorted and no two of its files have the same
  relative path. Every run of the same inputs in which a \<open>stat\<close> call or a \<open>print\<close>
  may raise, and which returns, has this same document. Stated for a tree in which the
  names of a directory are distinct.
\<close>

theorem document_in_discovery_order:
  assumes "wf_fs root" and "discover repo_path root \<noteq> []"
  shows \<open>\<exists>r. create_pdf_from_repo markdown write_pdf cwd store (Some root) repo_path
               output_name = Inr r \<and>
     sorted (discover repo_path root) \<and>
     distinct (map (\<lambda>f. drop (length repo_path) f) (discover repo_path root)) \<and>
     map snd (enumerate 0 (discover repo_path root)) = discover repo_path root \<and>
     map fst (enumerate 0 (discover repo_path root)) =
       [0..<length (discover repo_path root)] \<and>
     document r =
       Some (html_start output_name (absolute cwd repo_path) (length (discover repo_path root)) @
             concat (map (\<lambda>x.
                ''<li style="margin-left: '' @
                str_int ((int (length (drop (length repo_path) (snd x))) - 1) * 20) @
                ''px;"><a href="#section-'' @ str_nat (fst x) @ ''-'' @
                sanitize_anchor (path_str (drop (length repo_path) (snd x))) @ ''">'' @
                path_str (drop (length repo_path) (snd x)) @ ''</a></li>\<newline>'')
               (enumerate 0 (discover repo_path root))) @
             ''\<newline>            </ul>\<newline>        </div>\<newline>    '' @
             concat (map (\<lambda>x.
                case read_file repo_path root (snd x) of
                  Inl e \<Rightarrow> []
                | Inr md_content \<Rightarrow>
                    if strip md_content = [] then []
                    else
                      (case markdown md_content of
                         Inl e \<Rightarrow> []
                       | Inr html_section \<Rightarrow>
                           ''\<newline>        <div class="file-section" id="section-'' @
                           str_nat (fst x) @ ''-'' @
                           sanitize_anchor (path_str (drop (length repo_path) (snd x))) @ ''">\<newline>'' @
                           ''            <div class="file-path">'' @
                           path_str (drop (length repo_path) (snd x)) @ ''</div>\<newline>'' @
                           ''            '' @ html_section @ ''\<newline>'' @
                           ''        </div>\<newline>'' @
                           ''        ''))
               (enumerate 0 (discover repo_path root))) @
             ''</body></html>'') \<and>
     (\<forall>fl r'. create_pdf_from_repo_os fl markdown write_pdf cwd store (Some root) repo_path
                output_name = Inr r' \<longrightarrow> document r' = document r)\<close>
proof -
  have o: "document r' = Some (composite markdown cwd root repo_path output_name)"
    if "create_pdf_from_repo_os fl markdown write_pdf cwd store (Some root) repo_path
          output_name = Inr r'" for fl r'
    using run_os_returns [OF that] by (auto simp: run_assembled [OF assms(2)])
  have 1: "distinct (map (\<lambda>f. drop (length repo_path) f) (discover repo_path root))"
    using relative_distinct [OF assms(1), of repo_path] by (simp add: relative_def [abs_def])
  show ?thesis
    unfolding run_assembled [OF assms(2)]
    by (intro exI conjI)
      (rule refl, rule discover_sorted, rule 1, simp add: enumerate_eq_zip,
        simp add: enumerate_eq_zip, simp add: composite_markup, use o in auto)
qed

theorem document_in_discovery_order_witness:
  \<open>wf_fs example_root_mixed \<and> discover [''/'', ''docs''] example_root_mixed \<noteq> [] \<and>
   discover [''/'', ''docs''] example_root_mixed =
     [[''/'', ''docs'', ''a b.md''], [''/'', ''docs'', ''a-b.md''], [''/'', ''docs'', ''bad.md''],
      [''/'', ''docs'', ''empty.md''], [''/'', ''docs'', ''locked.md''],
      [''/'', ''docs'', ''old.md'', ''z.md'']] \<and>
   distinct (map (\<lambda>f. drop (length [''/'', ''docs'']) f)
     (discover [''/'', ''docs''] example_root_mixed)) \<and>
   (\<exists>r. create_pdf_from_repo example_markdown example_write_pdf [''/'', ''w''] Map.empty
          (Some example_root_mixed) [''/'', ''docs''] ''MCP-docs'' = Inr r \<and>
        document r = Some (
       ''\<newline>'' @
       ''    <!DOCTYPE html>\<newline>'' @
       ''    <html>\<newline>'' @
       ''    <head>\<newline>'' @
       ''        <meta charset="UTF-8">\<newline>'' @
       ''        <title>MCP-docs Documentation</title>\<newline>'' @
       ''    </head>\<newline>'' @
       ''    <body>\<newline>'' @
       ''        <h1>MCP-docs Documentation</h1>\<newline>'' @
       ''        <p>Generated from: <code>/docs</code></p>\<newline>'' @
       ''        <p>Total files: 6</p>\<newline>'' @
       ''\<newline>'' @
       ''        <div class="toc">\<newline>'' @
       ''            <h2>Table of Contents</h2>\<newline>'' @
       ''            <ul>\<newline>'' @
       ''    <li style="margin-left: 0px;"><a href="#section-0-a-bmd">a b.md</a></li>\<newline>'' @
       ''<li style="margin-left: 0px;"><a href="#section-1-a-bmd">a-b.md</a></li>\<newline>'' @
       ''<li style="margin-left: 0px;"><a href="#section-2-badmd">bad.md</a></li>\<newline>'' @
       ''<li style="margin-left: 0px;"><a href="#section-3-emptymd">empty.md</a></li>\<newline>'' @
       ''<li style="margin-left: 0px;"><a href="#section-4-lockedmd">locked.md</a></li>\<newline>'' @
       ''<li style="margin-left: 20px;"><a href="#section-5-oldmdzmd">old.md/z.md</a></li>\<newline>'' @
       ''\<newline>'' @
       ''            </ul>\<newline>'' @
       ''        </div>\<newline>'' @
       ''    \<newline>'' @
       ''        <div class="file-section" id="section-0-a-bmd">\<newline>'' @
       ''            <div class="file-path">a b.md</div>\<newline>'' @
       ''            <p>first</p>\<newline>'' @
       ''        </div>\<newline>'' @
       ''        \<newline>'' @
       ''        <div class="file-section" id="section-1-a-bmd">\<newline>'' @
       ''            <div class="file-path">a-b.md</div>\<newline>'' @
       ''            <p>second</p>\<newline>'' @
       ''        </div>\<newline>'' @
       ''        \<newline>'' @
       ''        <div class="file-section" id="section-5-oldmdzmd">\<newline>'' @
       ''            <div class="file-path">old.md/z.md</div>\<newline>'' @
       ''            <p>last</p>\<newline>'' @
       ''        </div>\<newline>'' @
       ''        </body></html>'') \<and>
        (\<exists>r'. create_pdf_from_repo_os example_bad_cwd example_markdown example_write_pdf
               [''/'', ''w''] Map.empty (Some example_root_mixed) [''/'', ''docs''] ''MCP-docs'' = Inr r' \<and>
           document r' = document r))\<close>
proof -
  let ?rp = "[''/'', ''docs'']"
  have w: "wf_fs example_root_mixed" by code_simp
  have d: "discover ?rp example_root_mixed \<noteq> []" by code_simp
  have m: "discover ?rp example_root_mixed =
     [[''/'', ''docs'', ''a b.md''], [''/'', ''docs'', ''a-b.md''], [''/'', ''docs'', ''bad.md''],
      [''/'', ''docs'', ''empty.md''], [''/'', ''docs'', ''locked.md''],
      [''/'', ''docs'', ''old.md'', ''z.md'']]"
    by code_simp
  have e: \<open>html_start ''MCP-docs'' (absolute [''/'', ''w''] [''/'', ''docs'']) (length (discover [''/'', ''docs''] example_root_mixed)) @
             concat (map (\<lambda>x.
                ''<li style="margin-left: '' @
                str_int ((int (length (drop (length [''/'', ''docs'']) (snd x))) - 1) * 20) @
                ''px;"><a href="#section-'' @ str_nat (fst x) @ ''-'' @
                sanitize_anchor (path_str (drop (length [''/'', ''docs'']) (snd x))) @ ''">'' @
                path_str (drop (length [''/'', ''docs'']) (snd x)) @ ''</a></li>\<newline>'')
               (enumerate 0 (discover [''/'', ''docs''] example_root_mixed))) @
             ''\<newline>            </ul>\<newline>        </div>\<newline>    '' @
             concat (map (\<lambda>x.
                case read_file [''/'', ''docs''] example_root_mixed (snd x) of
                  Inl e \<Rightarrow> []
                | Inr md_content \<Rightarrow>
                    if strip md_content = [] then []
                    else
                      (case example_markdown md_content of
                         Inl e \<Rightarrow> []
                       | Inr html_section \<Rightarrow>
                           ''\<newline>        <div class="file-section" id="section-'' @
                           str_nat (fst x) @ ''-'' @
                           sanitize_anchor (path_str (drop (length [''/'', ''docs'']) (snd x))) @ ''">\<newline>'' @
                           ''            <div class="file-path">'' @
                           path_str (drop (length [''/'', ''docs'']) (snd x)) @ ''</div>\<newline>'' @
                           ''            '' @ html_section @ ''\<newline>'' @
                           ''        </div>\<newline>'' @
                           ''        ''))
               (enumerate 0 (discover [''/'', ''docs''] example_root_mixed))) @
             ''</body></html>'' =
       ''\<newline>'' @
       ''    <!DOCTYPE html>\<newline>'' @
       ''    <html>\<newline>'' @
       ''    <head>\<newline>'' @
       ''        <meta charset="UTF-8">\<newline>'' @
       ''        <title>MCP-docs Documentation</title>\<newline>'' @
       ''    </head>\<newline>'' @
       ''    <body>\<newline>'' @
       ''        <h1>MCP-docs Documentation</h1>\<newline>'' @
       ''        <p>Generated from: <code>/docs</code></p>\<newline>'' @
       ''        <p>Total files: 6</p>\<newline>'' @
       ''\<newline>'' @
       ''        <div class="toc">\<newline>'' @
       ''            <h2>Table of Contents</h2>\<newline>'' @
       ''            <ul>\<newline>'' @
       ''    <li style="margin-left: 0px;"><a href="#section-0-a-bmd">a b.md</a></li>\<newline>'' @
       ''<li style="margin-left: 0px;"><a href="#section-1-a-bmd">a-b.md</a></li>\<newline>'' @
       ''<li style="margin-left: 0px;"><a href="#section-2-badmd">bad.md</a></li>\<newline>'' @
       ''<li style="margin-left: 0px;"><a href="#section-3-emptymd">empty.md</a></li>\<newline>'' @
       ''<li style="margin-left: 0px;"><a href="#section-4-lockedmd">locked.md</a></li>\<newline>'' @
       ''<li style="margin-left: 20px;"><a href="#section-5-oldmdzmd">old.md/z.md</a></li>\<newline>'' @
       ''\<newline>'' @
       ''            </ul>\<newline>'' @
       ''        </div>\<newline>'' @
       ''    \<newline>'' @
       ''        <div class="file-section" id="section-0-a-bmd">\<newline>'' @
       ''            <div class="file-path">a b.md</div>\<newline>'' @
       ''            <p>first</p>\<newline>'' @
       ''        </div>\<newline>'' @
       ''        \<newline>'' @
       ''        <div class="file-section" id="section-1-a-bmd">\<newline>'' @
       ''            <div class="file-path">a-b.md</div>\<newline>'' @
       ''            <p>second</p>\<newline>'' @
       ''        </div>\<newline>'' @
       ''        \<newline>'' @
       ''        <div class="file-section" id="section-5-oldmdzmd">\<newline>'' @
       ''            <div class="file-path">old.md/z.md</div>\<newline>'' @
       ''            <p>last</p>\<newline>'' @
       ''        </div>\<newline>'' @
       ''        </body></html>''\<close>
    by code_simp
  have "case create_pdf_from_repo_os example_bad_cwd example_markdown example_write_pdf
          [''/'', ''w''] Map.empty (Some example_root_mixed) [''/'', ''docs''] ''MCP-docs'' of
          Inl e \<Rightarrow> False | Inr r' \<Rightarrow> True"
    by code_simp
  then have o: "\<exists>r'. create_pdf_from_repo_os example_bad_cwd example_markdown example_write_pdf
          [''/'', ''w''] Map.empty (Some example_root_mixed) [''/'', ''docs''] ''MCP-docs'' = Inr r'"
    by (simp split: sum.splits)
  note t = document_in_discovery_order [OF w d, of example_markdown example_write_pdf
      "[''/'', ''w'']" Map.empty "''MCP-docs''"]
  from t have 1: "distinct (map (\<lambda>f. drop (length ?rp) f) (discover ?rp example_root_mixed))"
    by blast
  from t have 2: \<open>\<exists>r. create_pdf_from_repo example_markdown example_write_pdf [''/'', ''w'']
          Map.empty (Some example_root_mixed) [''/'', ''docs''] ''MCP-docs'' = Inr r \<and>
        document r = Some (
       ''\<newline>'' @
       ''    <!DOCTYPE html>\<newline>'' @
       ''    <html>\<newline>'' @
       ''    <head>\<newline>'' @
       ''        <meta charset="UTF-8">\<newline>'' @
       ''        <title>MCP-docs Documentation</title>\<newline>'' @
       ''    </head>\<newline>'' @
       ''    <body>\<newline>'' @
       ''        <h1>MCP-docs Documentation</h1>\<newline>'' @
       ''        <p>Generated from: <code>/docs</code></p>\<newline>'' @
       ''        <p>Total files: 6</p>\<newline>'' @
       ''\<newline>'' @
       ''        <div class="toc">\<newline>'' @
       ''            <h2>Table of Contents</h2>\<newline>'' @
       ''            <ul>\<newline>'' @
       ''    <li style="margin-left: 0px;"><a href="#section-0-a-bmd">a b.md</a></li>\<newline>'' @
       ''<li style="margin-left: 0px;"><a href="#section-1-a-bmd">a-b.md</a></li>\<newline>'' @
       ''<li style="margin-left: 0px;"><a href="#section-2-badmd">bad.md</a></li>\<newline>'' @
       ''<li style="margin-left: 0px;"><a href="#section-3-emptymd">empty.md</a></li>\<newline>'' @
       ''<li style="margin-left: 0px;"><a href="#section-4-lockedmd">locked.md</a></li>\<newline>'' @
       ''<li style="margin-left: 20px;"><a href="#section-5-oldmdzmd">old.md/z.md</a></li>\<newline>'' @
       ''\<newline>'' @
       ''            </ul>\<newline>'' @
       ''        </div>\<newline>'' @
       ''    \<newline>'' @
       ''        <div class="file-section" id="section-0-a-bmd">\<newline>'' @
       ''            <div class="file-path">a b.md</div>\<newline>'' @
       ''            <p>first</p>\<newline>'' @
       ''        </div>\<newline>'' @
       ''        \<newline>'' @
       ''        <div class="file-section" id="section-1-a-bmd">\<newline>'' @
       ''            <div class="file-path">a-b.md</div>\<newline>'' @
       ''            <p>second</p>\<newline>'' @
       ''        </div>\<newline>'' @
       ''        \<newline>'' @
       ''        <div class="file-section" id="section-5-oldmdzmd">\<newline>'' @
       ''            <div class="file-path">old.md/z.md</div>\<newline>'' @
       ''            <p>last</p>\<newline>'' @
       ''        </div>\<newline>'' @
       ''        </body></html>'') \<and>
        (\<exists>r'. create_pdf_from_repo_os example_bad_cwd example_markdown example_write_pdf
               [''/'', ''w''] Map.empty (Some example_root_mixed) [''/'', ''docs''] ''MCP-docs'' = Inr r' \<and>
           document r' = document r)\<close>
    unfolding e using o by blast
  from w d m 1 2 show ?thesis by (intro conjI)
qed

section \<open>The count in the header\<close>

text \<open>
  Claim C9: in every run that produces a composite document, the number after
  \<open>Total files:\<close> in the header, and the number of the \<open>Found ... markdown files\<close> line, is
  the number of discovered files: the length of \<open>md_files\<close>, counted before any file is
  read, whether or not the file is skipped later.
\<close>

theorem total_files_counts_discovered:
  assumes "discover repo_path root \<noteq> []"
  shows "\<exists>r pre post rest lines.
     create_pdf_from_repo markdown write_pdf cwd store (Some root) repo_path output_name =
       Inr r \<and>
     document r =
       Some (html_start output_name (absolute cwd repo_path)
               (length (discover repo_path root)) @ rest) \<and>
     html_start output_name (absolute cwd repo_path) (length (discover repo_path root)) =
       pre @ ''<p>Total files: '' @ str_nat (length (discover repo_path root)) @ ''</p>'' @
       post \<and>
     console r =
       [Searching (absolute cwd repo_path), DirectoryExists True,
        Found (length (discover repo_path root))] @ lines"
proof -
  let ?n = "length (discover repo_path root)"
  have h: "html_start output_name (absolute cwd repo_path) ?n =
     (''\<newline>    <!DOCTYPE html>\<newline>'' @
      ''    <html>\<newline>'' @
      ''    <head>\<newline>'' @
      ''        <meta charset='' @ [CHR 0x22] @ ''UTF-8'' @ [CHR 0x22] @ ''>\<newline>'' @
      ''        <title>'' @ output_name @ '' Documentation</title>\<newline>'' @
      ''    </head>\<newline>'' @
      ''    <body>\<newline>'' @
      ''        <h1>'' @ output_name @ '' Documentation</h1>\<newline>'' @
      ''        <p>Generated from: <code>'' @ path_str (absolute cwd repo_path) @
      ''</code></p>\<newline>'' @ ''        '') @
     ''<p>Total files: '' @ str_nat ?n @ ''</p>'' @
     (''\<newline>'' @ ''\<newline>'' @
      ''        <div class='' @ [CHR 0x22] @ ''toc'' @ [CHR 0x22] @ ''>\<newline>'' @
      ''            <h2>Table of Contents</h2>\<newline>'' @
      ''            <ul>\<newline>'' @ ''    '')"
    by (simp add: html_start_def)
  show ?thesis
    unfolding run_assembled [OF assms]
    by (intro exI conjI, rule refl, simp add: composite_def, rule h)
      (simp add: found_lines_def)
qed

theorem total_files_counts_discovered_witness:
  "discover [''/'', ''docs''] example_root \<noteq> [] \<and>
   length (discover [''/'', ''docs''] example_root) = 3 \<and>
   length (filter (converted example_markdown [''/'', ''docs''] example_root)
     (discover [''/'', ''docs''] example_root)) = 2 \<and>
   (\<exists>r pre post rest lines.
     create_pdf_from_repo example_markdown example_write_pdf [''/'', ''w''] Map.empty
       (Some example_root) [''/'', ''docs''] ''MCP-docs'' = Inr r \<and>
     document r = Some (html_start ''MCP-docs'' [''/'', ''docs''] 3 @ rest) \<and>
     html_start ''MCP-docs'' [''/'', ''docs''] 3 =
       pre @ ''<p>Total files: '' @ ''3'' @ ''</p>'' @ post \<and>
     console r = [Searching [''/'', ''docs''], DirectoryExists True, Found 3] @ lines)"
proof -
  have d: "discover [''/'', ''docs''] example_root \<noteq> []" by code_simp
  have n: "length (discover [''/'', ''docs''] example_root) = 3" by code_simp
  have c: "length (filter (converted example_markdown [''/'', ''docs''] example_root)
     (discover [''/'', ''docs''] example_root)) = 2"
    by code_simp
  have a: "absolute [''/'', ''w''] [''/'', ''docs''] = [''/'', ''docs'']" by code_simp
  have s: "str_nat 3 = ''3''" by code_simp
  show ?thesis
    using total_files_counts_discovered [OF d, of example_markdown example_write_pdf
        "[''/'', ''w'']" Map.empty "''MCP-docs''"] d c
    unfolding n a s by (intro conjI) simp_all
qed

section \<open>The assembly does not depend on the listing order\<close>

text \<open>
  Claim C10: two runs over a root with the same discovered files and the same file contents,
  and with the same output name, assemble the same composite document. The two trees may
  list their directories in different orders, and the two runs may use different renderers
  and start from different files in the working directory: sorting fixes the order of
  \<open>md_files\<close>, and the document is built from \<open>md_files\<close>, the texts read, the root path
  made absolute and the output name only. Stated for trees in which the names of a
  directory are distinct, for the same converter and the same root path, and for working
  directories that make the root path absolute in the same way (any two, when the root
  path is absolute already).
\<close>

theorem assembly_independent_of_listing_order:
  assumes "wf_fs root1" and "wf_fs root2"
    and "set (md_entries root1) = set (md_entries root2)"
    and "absolute cwd1 repo_path = absolute cwd2 repo_path"
  shows "map_sum id document
           (create_pdf_from_repo markdown write_pdf1 cwd1 store1 (Some root1) repo_path
              output_name) =
         map_sum id document
           (create_pdf_from_repo markdown write_pdf2 cwd2 store2 (Some root2) repo_path
              output_name)"
proof -
  have d: "discover repo_path root1 = discover repo_path root2"
    by (rule same_entries_same_files [OF assms(1-3)])
  show ?thesis
  proof (cases "discover repo_path root1 = []")
    case True
    then have "discover repo_path root2 = []" by (simp only: d)
    with True show ?thesis by (simp add: run_no_matches)
  next
    case False
    then have n: "discover repo_path root2 \<noteq> []" by (simp only: d not_False_eq_True)
    have "composite markdown cwd1 root1 repo_path output_name =
          composite markdown cwd2 root2 repo_path output_name"
      unfolding composite_def same_entries_same_sections [OF assms(1-3)]
      by (simp only: d assms(4))
    then show ?thesis by (simp add: run_assembled [OF False] run_assembled [OF n])
  qed
qed

theorem assembly_independent_of_listing_order_witness:
  "wf_fs example_root \<and> wf_fs example_root_reordered \<and>
   set (md_entries example_root) = set (md_entries example_root_reordered) \<and>
   absolute [''/'', ''w''] [''/'', ''docs''] = absolute [''/'', ''tmp''] [''/'', ''docs''] \<and>
   rglob_md [''/'', ''docs''] example_root \<noteq> rglob_md [''/'', ''docs''] example_root_reordered \<and>
   map_sum id document
     (create_pdf_from_repo example_markdown example_write_pdf [''/'', ''w''] Map.empty
        (Some example_root) [''/'', ''docs''] ''MCP-docs'') =
   map_sum id document
     (create_pdf_from_repo example_markdown failing_write_pdf [''/'', ''tmp'']
        [''old.pdf'' \<mapsto> 7] (Some example_root_reordered) [''/'', ''docs''] ''MCP-docs'')"
proof -
  have 1: "wf_fs example_root" by code_simp
  have 2: "wf_fs example_root_reordered" by code_simp
  have 3: "set (md_entries example_root) = set (md_entries example_root_reordered)"
    by code_simp
  have 4: "rglob_md [''/'', ''docs''] example_root \<noteq>
           rglob_md [''/'', ''docs''] example_root_reordered"
    by code_simp
  have 5: "absolute [''/'', ''w''] [''/'', ''docs''] = absolute [''/'', ''tmp''] [''/'', ''docs'']"
    by code_simp
  from 1 2 3 5 4 show ?thesis
    using assembly_independent_of_listing_order [OF 1 2 3 5, of example_markdown
        example_write_pdf Map.empty "''MCP-docs''" failing_write_pdf "[''old.pdf'' \<mapsto> 7]"]
    by (intro conjI)
qed

end
